theory Spec2Isabelle
  imports Complex_Main "HOL-Library.Sublist"
begin

section \<open>CareerCompass AI: the analysis orchestration of the Gemini service module\<close>

text \<open>
  The development embeds the service module with the retry wrapper (the variant of
  \<^verbatim>\<open>services/geminiService.ts\<close> that defines \<^verbatim>\<open>generateContentWithRetry\<close>).
  Every function of the module that awaits something is a function from a state to a
  result and a new state. The state counts the calls made to the model and to the
  code-hosting API and records them, with the pacing delays, in a trace. What the outside
  world answers is an environment: the answer to the k-th call is a function of k and of
  the request, so a mock that fails N times and then succeeds is one environment among
  all others. An \<^verbatim>\<open>await\<close> is sequential composition, a \<^verbatim>\<open>throw\<close> is the left
  injection of a sum.
\<close>

subsection \<open>JavaScript values\<close>

text \<open>
  A value that \<^verbatim>\<open>JSON.parse\<close> returns. \<^verbatim>\<open>undefined\<close> is \<open>None\<close> of
  \<open>json option\<close>. Numbers are taken as rationals (every finite double is one).
\<close>

datatype json =
    JNull
  | JBool bool
  | JNum rat
  | JStr string
  | JArr "json list"
  | JObj "(string \<times> json) list"

type_synonym jsval = "json option"

text \<open>ToBoolean, as \<^verbatim>\<open>||\<close>, \<^verbatim>\<open>!\<close> and \<^verbatim>\<open>if\<close> apply it.\<close>

fun truthy_json :: "json \<Rightarrow> bool" where
  "truthy_json JNull = False"
| "truthy_json (JBool b) = b"
| "truthy_json (JNum n) = (n \<noteq> 0)"
| "truthy_json (JStr s) = (s \<noteq> [])"
| "truthy_json (JArr xs) = True"
| "truthy_json (JObj kvs) = True"

fun truthy :: "jsval \<Rightarrow> bool" where
  "truthy None = False"
| "truthy (Some v) = truthy_json v"

text \<open>
  An error object as the retry wrapper reads it: \<^verbatim>\<open>error.status\<close> and
  \<^verbatim>\<open>error.code\<close> when they are numbers, \<^verbatim>\<open>error.message\<close> (empty when absent,
  both are falsy), and the text \<^verbatim>\<open>JSON.stringify(error)\<close> gives.
\<close>

record js_error =
  err_status :: "int option"
  err_code :: "int option"
  err_message :: string
  err_json :: string

definition Error :: "string \<Rightarrow> js_error" where
  "Error msg = \<lparr>err_status = None, err_code = None, err_message = msg, err_json = ''{}''\<rparr>"

text \<open>\<^verbatim>\<open>String.prototype.includes\<close> and \<^verbatim>\<open>startsWith\<close>.\<close>

fun str_includes :: "string \<Rightarrow> string \<Rightarrow> bool" where
  "str_includes [] sub = (sub = [])"
| "str_includes (c # cs) sub = (prefix sub (c # cs) \<or> str_includes cs sub)"

definition startsWith :: "string \<Rightarrow> string \<Rightarrow> bool" where
  "startsWith s p = prefix p s"

subsection \<open>Requests, answers, state\<close>

datatype schema =
    GITHUB_DEEP_ANALYSIS_SCHEMA
  | RESUME_HIGHLIGHTS_SCHEMA
  | ANALYSIS_SCHEMA
  | INTERVIEW_TOPICS_SCHEMA
  | INTERVIEW_QUESTION_SCHEMA
  | INTERVIEW_EVALUATION_SCHEMA

text \<open>
  The prompts are template literals. The fixed text of a template is its constructor,
  the interpolated values are the arguments.
\<close>

datatype prompt =
    RepoPrompt string string
  | ResumePrompt
  | MainPrompt string string
  | PortfolioPrompt json json
  | TopicsPrompt string
  | QuestionPrompt string string
  | SpeechText string
  | TranscribePrompt
  | EvaluationPrompt string string string

datatype part =
    InlineData "string option" string
  | Text prompt

record gen_params =
  model :: string
  content_parts :: "part list"
  responseSchema :: "schema option"
  googleSearch :: bool
  audioModality :: bool

text \<open>
  What \<^verbatim>\<open>generateContent\<close> resolves to: \<^verbatim>\<open>response.text\<close> and the inline audio
  payload of the first part of the first candidate, each possibly undefined.
\<close>

record gen_response =
  resp_text :: "string option"
  audioData :: "string option"

datatype 'a http = Rejected | NotOk | Ok "'a option"

record repo_meta =
  meta_name :: string
  meta_html_url :: string

record dir_entry =
  entry_name :: string
  entry_type :: string
  entry_path :: string

record file_envelope =
  env_content :: string
  env_encoding :: string

datatype event =
    Generate gen_params
  | Wait nat
  | Fetch string

record state =
  gen_calls :: nat
  fetches :: nat
  trace :: "event list"

text \<open>
  The environment. \<open>generateContent env k p\<close> is what the k-th call of
  \<^verbatim>\<open>ai.models.generateContent\<close> does when its parameters are \<open>p\<close>: it throws
  (\<open>Inl\<close>) or resolves. \<open>fetch_* env k\<close> is the k-th \<^verbatim>\<open>fetch\<close>: it rejects, answers
  with a status that is not ok, or answers ok with a body that \<^verbatim>\<open>res.json()\<close> reads
  (\<open>Some\<close>) or rejects (\<open>None\<close>). The built-ins \<^verbatim>\<open>atob\<close>, \<^verbatim>\<open>JSON.parse\<close> and the
  string conversion of template literals are parameters too; those that can throw return
  an option.
\<close>

record env =
  generateContent :: "nat \<Rightarrow> gen_params \<Rightarrow> js_error + gen_response"
  fetch_repo :: "nat \<Rightarrow> string \<Rightarrow> repo_meta http"
  fetch_languages :: "nat \<Rightarrow> string \<Rightarrow> (string \<times> nat) list http"
  fetch_contents :: "nat \<Rightarrow> string \<Rightarrow> dir_entry list http"
  fetch_file :: "nat \<Rightarrow> string \<Rightarrow> file_envelope http"
  atob :: "string \<Rightarrow> string option"
  JSON_parse :: "string \<Rightarrow> json option"
  ToString :: "jsval \<Rightarrow> string"

subsection \<open>Helper functions\<close>

text \<open>\<^verbatim>\<open>const wait = (ms) => new Promise(resolve => setTimeout(resolve, ms))\<close>\<close>

definition wait :: "nat \<Rightarrow> state \<Rightarrow> state" where
  "wait ms s = s\<lparr>trace := trace s @ [Wait ms]\<rparr>"

text \<open>One call of \<^verbatim>\<open>ai.models.generateContent(params)\<close>.\<close>

definition invoke :: "env \<Rightarrow> gen_params \<Rightarrow> state \<Rightarrow> (js_error + gen_response) \<times> state" where
  "invoke env params s =
     (generateContent env (gen_calls s) params,
      s\<lparr>gen_calls := Suc (gen_calls s), trace := trace s @ [Generate params]\<rparr>)"

definition isQuotaError :: "js_error \<Rightarrow> bool" where
  "isQuotaError error =
     (let message = (if err_message error \<noteq> [] then err_message error else err_json error)
      in err_status error = Some 429 \<or>
         err_code error = Some 429 \<or>
         str_includes message ''429'' \<or>
         str_includes message ''quota'' \<or>
         str_includes message ''RESOURCE_EXHAUSTED'')"

definition max_retries_error :: js_error where
  "max_retries_error = Error ''Max retries exceeded for Gemini API''"

text \<open>
  The loop of \<^verbatim>\<open>generateContentWithRetry\<close>, from its counter \<open>i\<close> on. The delay
  \<^verbatim>\<open>initialDelay * Math.pow(2, i)\<close> is computed on natural numbers; the doubles of the
  source are exact on them below \<open>2 ^ 53\<close>.
\<close>

function retry_loop ::
  "env \<Rightarrow> gen_params \<Rightarrow> int \<Rightarrow> nat \<Rightarrow> nat \<Rightarrow> state \<Rightarrow> (js_error + gen_response) \<times> state" where
  "retry_loop env params retries initialDelay i s =
     (if int i < retries then
        (case invoke env params s of
           (Inr result, s1) \<Rightarrow> (Inr result, s1)
         | (Inl error, s1) \<Rightarrow>
             if isQuotaError error \<and> int i < retries - 1 then
               (let waitTime = initialDelay * 2 ^ i
                in retry_loop env params retries initialDelay (Suc i) (wait waitTime s1))
             else (Inl error, s1))
      else (Inl max_retries_error, s))"
  by pat_completeness auto
termination
  by (relation "measure (\<lambda>(env, params, retries, initialDelay, i, s). nat (retries - int i))") auto

declare retry_loop.simps [simp del]

definition generateContentWithRetry ::
  "env \<Rightarrow> gen_params \<Rightarrow> int \<Rightarrow> nat \<Rightarrow> state \<Rightarrow> (js_error + gen_response) \<times> state" where
  "generateContentWithRetry env params retries initialDelay s =
     retry_loop env params retries initialDelay 0 s"

text \<open>
  The same loop with an arbitrary outcome \<open>final\<close> in the place of the last line,
  \<^verbatim>\<open>throw new Error("Max retries exceeded for Gemini API")\<close>. It serves to say that
  this line is not reached: the result does not depend on \<open>final\<close>.
\<close>

function retry_loop_final ::
  "(js_error + gen_response) \<Rightarrow> env \<Rightarrow> gen_params \<Rightarrow> int \<Rightarrow> nat \<Rightarrow> nat \<Rightarrow> state
     \<Rightarrow> (js_error + gen_response) \<times> state" where
  "retry_loop_final final env params retries initialDelay i s =
     (if int i < retries then
        (case invoke env params s of
           (Inr result, s1) \<Rightarrow> (Inr result, s1)
         | (Inl error, s1) \<Rightarrow>
             if isQuotaError error \<and> int i < retries - 1 then
               (let waitTime = initialDelay * 2 ^ i
                in retry_loop_final final env params retries initialDelay (Suc i)
                     (wait waitTime s1))
             else (Inl error, s1))
      else (final, s))"
  by pat_completeness auto
termination
  by (relation "measure (\<lambda>(final, env, params, retries, initialDelay, i, s).
                           nat (retries - int i))") auto

declare retry_loop_final.simps [simp del]

text \<open>The trace of a run whose first \<open>n\<close> attempts, from counter \<open>i\<close> on, are retried.\<close>

definition backoff_trace :: "gen_params \<Rightarrow> nat \<Rightarrow> nat \<Rightarrow> nat \<Rightarrow> event list" where
  "backoff_trace params initialDelay i n =
     concat (map (\<lambda>j. [Generate params, Wait (initialDelay * 2 ^ (i + j))]) [0..<n])
     @ [Generate params]"

subsection \<open>Strings\<close>

text \<open>
  Strings are lists of 8-bit characters: \<^verbatim>\<open>atob\<close> returns exactly such strings, and
  the other texts are taken with code units below 256. On them the class \<^verbatim>\<open>\s\<close> of
  JavaScript, which is also what \<^verbatim>\<open>trim\<close> removes, is tab, line feed, vertical tab,
  form feed, carriage return, space and the no-break space.
\<close>

definition isSpace :: "char \<Rightarrow> bool" where
  "isSpace c = (c \<in> {CHR 0x09, CHR 0x0A, CHR 0x0B, CHR 0x0C, CHR 0x0D, CHR 0x20, CHR 0xA0})"

definition trim :: "string \<Rightarrow> string" where
  "trim s = rev (dropWhile isSpace (rev (dropWhile isSpace s)))"

text \<open>The class \<^verbatim>\<open>[\s,]\<close>.\<close>

definition isSep :: "char \<Rightarrow> bool" where
  "isSep c = (isSpace c \<or> c = CHR '','')"

text \<open>
  \<^verbatim>\<open>input.split(/[\s,]+/)\<close>: the fields between the maximal runs of separators. A
  separator run at either end leaves an empty field there, and the empty input gives one
  empty field.
\<close>

fun split_sep :: "string \<Rightarrow> string list" where
  "split_sep [] = [[]]"
| "split_sep (c # cs) =
     (if isSep c then
        (if cs \<noteq> [] \<and> isSep (hd cs) then split_sep cs else [] # split_sep cs)
      else (case split_sep cs of
              [] \<Rightarrow> [[c]]
            | f # fs \<Rightarrow> (c # f) # fs))"

text \<open>\<^verbatim>\<open>clean.replace(/\/$/, '')\<close>\<close>

definition strip_trailing_slash :: "string \<Rightarrow> string" where
  "strip_trailing_slash s = (if s \<noteq> [] \<and> last s = CHR ''/'' then butlast s else s)"

text \<open>
  \<^verbatim>\<open>cleanJson\<close>: \<^verbatim>\<open>replace(/^```json\s*/, '')\<close>, \<^verbatim>\<open>replace(/^```\s*/, '')\<close>,
  \<^verbatim>\<open>replace(/```$/, '')\<close>, \<^verbatim>\<open>trim()\<close>. \<^verbatim>\<open>cleanHtml\<close> is the same with
  \<^verbatim>\<open>html\<close> for \<^verbatim>\<open>json\<close>.
\<close>

definition strip_fence_open :: "string \<Rightarrow> string \<Rightarrow> string" where
  "strip_fence_open fence s =
     (if prefix fence s then dropWhile isSpace (drop (length fence) s) else s)"

definition strip_fence_close :: "string \<Rightarrow> string" where
  "strip_fence_close s = (if suffix ''```'' s then take (length s - 3) s else s)"

definition cleanJson :: "string \<Rightarrow> string" where
  "cleanJson t =
     (if t = [] then []
      else trim (strip_fence_close (strip_fence_open ''```'' (strip_fence_open ''```json'' t))))"

definition cleanHtml :: "string \<Rightarrow> string" where
  "cleanHtml t =
     (if t = [] then []
      else trim (strip_fence_close (strip_fence_open ''```'' (strip_fence_open ''```html'' t))))"

subsection \<open>The reference parser\<close>

record repo_ref =
  ref_owner :: string
  ref_repo :: string
  ref_url :: string

text \<open>The classes \<^verbatim>\<open>[a-zA-Z0-9-]\<close> and \<^verbatim>\<open>[a-zA-Z0-9-_\.]\<close>.\<close>

definition isOwnerChar :: "char \<Rightarrow> bool" where
  "isOwnerChar c =
     (c \<in> set ''abcdefghijklmnopqrstuvwxyzABCDEFGHIJKLMNOPQRSTUVWXYZ0123456789-'')"

definition isRepoChar :: "char \<Rightarrow> bool" where
  "isRepoChar c = (isOwnerChar c \<or> c = CHR ''_'' \<or> c = CHR ''.'')"

text \<open>
  The tail \<^verbatim>\<open>([a-zA-Z0-9-]{1,39})\/([a-zA-Z0-9-_\.]+)\<close> of the pattern, matched at the
  head of \<open>s\<close>. The owner class does not contain the slash, so the only length of the
  first group after which a slash can follow is that of the whole run of owner characters,
  and backtracking to a shorter one never helps: the tail matches exactly when that run
  has 1 to 39 characters, a slash follows it, and at least one repo character follows the
  slash. The second group is greedy and nothing follows it, so it is the whole run of repo
  characters.
\<close>

definition owner_repo :: "string \<Rightarrow> (string \<times> string) option" where
  "owner_repo s =
     (let o1 = takeWhile isOwnerChar s;
          rest = dropWhile isOwnerChar s
      in if 1 \<le> length o1 \<and> length o1 \<le> 39 \<and> rest \<noteq> [] \<and> hd rest = CHR ''/''
            \<and> takeWhile isRepoChar (tl rest) \<noteq> []
         then Some (o1, takeWhile isRepoChar (tl rest))
         else None)"

text \<open>
  The alternatives of \<^verbatim>\<open>(?:github\.com\/|^)\<close> at one position, in their order: the
  literal first, then the anchor, which holds at the start of the token only.
\<close>

definition match_here :: "bool \<Rightarrow> string \<Rightarrow> (string \<times> string) option" where
  "match_here at_start s =
     (case (if prefix ''github.com/'' s then owner_repo (drop 11 s) else None) of
        Some m \<Rightarrow> Some m
      | None \<Rightarrow> (if at_start then owner_repo s else None))"

text \<open>\<^verbatim>\<open>clean.match(...)\<close>: the pattern is not anchored, the leftmost match wins.\<close>

fun match_from :: "bool \<Rightarrow> string \<Rightarrow> (string \<times> string) option" where
  "match_from at_start [] = match_here at_start []"
| "match_from at_start (c # cs) =
     (case match_here at_start (c # cs) of
        Some m \<Rightarrow> Some m
      | None \<Rightarrow> match_from False cs)"

definition parse_link :: "string \<Rightarrow> repo_ref option" where
  "parse_link link =
     (let clean = strip_trailing_slash (trim link)
      in case match_from True clean of
           None \<Rightarrow> None
         | Some (m1, m2) \<Rightarrow>
             Some \<lparr>ref_owner = m1, ref_repo = m2,
                   ref_url = ''https://github.com/'' @ m1 @ ''/'' @ m2\<rparr>)"

text \<open>
  \<^verbatim>\<open>Map.prototype.set\<close> on a map kept as the list of its entries in insertion order: a
  key already present keeps its place and takes the new value.
\<close>

fun map_set :: "('k \<times> 'v) list \<Rightarrow> 'k \<Rightarrow> 'v \<Rightarrow> ('k \<times> 'v) list" where
  "map_set [] k v = [(k, v)]"
| "map_set ((k', v') # m) k v = (if k' = k then (k, v) # m else (k', v') # map_set m k v)"

definition parseGithubInput :: "string \<Rightarrow> repo_ref list" where
  "parseGithubInput input =
     (let rawLinks = filter (\<lambda>l. l \<noteq> []) (split_sep input);
          repos = List.map_filter parse_link rawLinks;
          unique = fold (\<lambda>r m. map_set m (ref_url r) r) repos []
      in map snd unique)"

text \<open>
  What the pattern guarantees of a reference: the shape of its url and the identifier
  rules of the two groups.
\<close>

definition valid_ref :: "repo_ref \<Rightarrow> bool" where
  "valid_ref r =
     (ref_url r = ''https://github.com/'' @ ref_owner r @ ''/'' @ ref_repo r \<and>
      1 \<le> length (ref_owner r) \<and> length (ref_owner r) \<le> 39 \<and>
      (\<forall>c\<in>set (ref_owner r). isOwnerChar c) \<and>
      ref_repo r \<noteq> [] \<and> (\<forall>c\<in>set (ref_repo r). isRepoChar c))"

subsection \<open>The artifact fetcher\<close>

definition fetched :: "string \<Rightarrow> state \<Rightarrow> state" where
  "fetched u s = s\<lparr>fetches := Suc (fetches s), trace := trace s @ [Fetch u]\<rparr>"

definition repo_api :: "string \<Rightarrow> string \<Rightarrow> string" where
  "repo_api owner repo = ''https://api.github.com/repos/'' @ owner @ ''/'' @ repo"

text \<open>
  \<^verbatim>\<open>fetchGithubFileContent\<close>. Everything that throws inside is caught and gives
  \<^verbatim>\<open>null\<close>. An absent \<^verbatim>\<open>data.content\<close> is the empty string here: both are falsy.
\<close>

definition fetchGithubFileContent ::
  "env \<Rightarrow> string \<Rightarrow> string \<Rightarrow> string \<Rightarrow> state \<Rightarrow> string option \<times> state" where
  "fetchGithubFileContent env owner repo path s =
     (let u = repo_api owner repo @ ''/contents/'' @ path;
          s1 = fetched u s
      in case fetch_file env (fetches s) u of
           Rejected \<Rightarrow> (None, s1)
         | NotOk \<Rightarrow> (None, s1)
         | Ok None \<Rightarrow> (None, s1)
         | Ok (Some data) \<Rightarrow>
             if env_content data \<noteq> [] \<and> env_encoding data = ''base64''
             then (atob env (env_content data), s1)
             else (None, s1))"

text \<open>Decimal text of a number that is an integer, as a template literal prints it.\<close>

definition digit_char :: "nat \<Rightarrow> char" where
  "digit_char d = ''0123456789'' ! d"

fun show_nat :: "nat \<Rightarrow> string" where
  "show_nat n = (if n < 10 then [digit_char n] else show_nat (n div 10) @ [digit_char (n mod 10)])"

declare show_nat.simps [simp del]

definition show_int :: "int \<Rightarrow> string" where
  "show_int i = (if i < 0 then CHR ''-'' # show_nat (nat (- i)) else show_nat (nat i))"

text \<open>\<^verbatim>\<open>Math.round\<close>: the nearest integer, a half going up.\<close>

definition Math_round :: "rat \<Rightarrow> int" where
  "Math_round x = \<lfloor>x + 1 / 2\<rfloor>"

text \<open>
  \<^verbatim>\<open>`${l} ${Math.round((bytes / total) * 100)}%`\<close>. The source computes on doubles,
  the model on rationals; the two results can differ, by one, only where the exact
  percentage lies within \<open>10\<^sup>-\<^sup>1\<^sup>3\<close> of a half, which for a total below
  \<open>10\<^sup>1\<^sup>3\<close> bytes means that it is a half exactly. When all byte counts are 0 the
  quotient is \<^verbatim>\<open>0 / 0\<close>, which prints as \<^verbatim>\<open>NaN\<close>.
\<close>

definition lang_entry :: "nat \<Rightarrow> string \<times> nat \<Rightarrow> string" where
  "lang_entry totalBytes lb =
     fst lb @ '' '' @
     (if totalBytes = 0 then ''NaN''
      else show_int (Math_round ((of_nat (snd lb) / of_nat totalBytes) * 100))) @ ''%''"

text \<open>\<^verbatim>\<open>Array.prototype.join\<close>\<close>

fun join :: "string \<Rightarrow> string list \<Rightarrow> string" where
  "join sep [] = []"
| "join sep [x] = x"
| "join sep (x # y # ys) = x @ sep @ join sep (y # ys)"

text \<open>
  The language summary of a languages answer \<open>langs\<close>, given as the list of its entries
  in the order \<^verbatim>\<open>Object.entries\<close> enumerates them.
\<close>

definition langSummary_of :: "(string \<times> nat) list \<Rightarrow> string" where
  "langSummary_of langs =
     (let totalBytes = fold (\<lambda>b a. a + b) (map snd langs) 0
      in join '', '' (take 5 (map (lang_entry totalBytes) langs)))"

definition interestingFiles :: "string list" where
  "interestingFiles =
     [''README.md'', ''package.json'', ''requirements.txt'', ''pyproject.toml'',
      ''main.py'', ''app.py'', ''server.js'', ''index.js'', ''App.tsx'', ''index.html'',
      ''go.mod'', ''Cargo.toml'']"

definition foundFiles :: "dir_entry list \<Rightarrow> dir_entry list" where
  "foundFiles contents =
     filter (\<lambda>item. entry_type item = ''file'' \<and> entry_name item \<in> set interestingFiles) contents"

text \<open>The score of the comparator given to \<^verbatim>\<open>sort\<close>.\<close>

definition file_score :: "dir_entry \<Rightarrow> nat" where
  "file_score a =
     (if startsWith (entry_name a) ''README'' then 0
      else if str_includes (entry_name a) ''json'' \<or> str_includes (entry_name a) ''txt'' then 1
      else 2)"

text \<open>
  \<^verbatim>\<open>foundFiles.sort((a, b) => aScore - bScore)\<close> and \<^verbatim>\<open>slice(0, 4)\<close>. The
  comparator orders by score, and \<^verbatim>\<open>Array.prototype.sort\<close> is stable, as is
  \<open>sort_key\<close>.
\<close>

definition targetFiles :: "dir_entry list \<Rightarrow> dir_entry list" where
  "targetFiles contents = take 4 (sort_key file_score (foundFiles contents))"

definition truncation_marker :: string where
  "truncation_marker = CHR 0x0A # ''...(truncated)...''"

text \<open>
  What one round of the loop over \<^verbatim>\<open>targetFiles\<close> appends to \<^verbatim>\<open>filesBundle\<close>
  for a file whose content is \<open>content\<close>, inside \<^verbatim>\<open>if (content)\<close>.
\<close>

definition file_block :: "string \<Rightarrow> string \<Rightarrow> string" where
  "file_block path content =
     (let truncated = (if length content > 8000 then take 8000 content @ truncation_marker
                       else content)
      in ''FILE: '' @ path @ [CHR 0x0A] @ truncated @ [CHR 0x0A, CHR 0x0A])"

fun bundle_files ::
  "env \<Rightarrow> string \<Rightarrow> string \<Rightarrow> dir_entry list \<Rightarrow> string \<Rightarrow> state \<Rightarrow> string \<times> state" where
  "bundle_files env owner repo [] filesBundle s = (filesBundle, s)"
| "bundle_files env owner repo (file # rest) filesBundle s =
     (case fetchGithubFileContent env owner repo (entry_path file) s of
        (None, s1) \<Rightarrow> bundle_files env owner repo rest filesBundle s1
      | (Some content, s1) \<Rightarrow>
          if content \<noteq> []
          then bundle_files env owner repo rest
                 (filesBundle @ file_block (entry_path file) content) s1
          else bundle_files env owner repo rest filesBundle s1)"

record repo_data =
  repo_name :: string
  repo_url :: string
  language_summary :: string
  files_bundle :: string

text \<open>
  \<^verbatim>\<open>fetchGithubRepoData\<close>. The outer \<^verbatim>\<open>catch\<close> turns every throw (a rejected
  \<^verbatim>\<open>fetch\<close>, a body \<^verbatim>\<open>json()\<close> rejects) into \<^verbatim>\<open>null\<close>.
\<close>

definition fetchGithubRepoData ::
  "env \<Rightarrow> string \<Rightarrow> string \<Rightarrow> state \<Rightarrow> repo_data option \<times> state" where
  "fetchGithubRepoData env owner repo s =
     (let s1 = fetched (repo_api owner repo) s
      in case fetch_repo env (fetches s) (repo_api owner repo) of
           Rejected \<Rightarrow> (None, s1)
         | NotOk \<Rightarrow> (None, s1)
         | Ok None \<Rightarrow> (None, s1)
         | Ok (Some meta) \<Rightarrow>
             (let s2 = fetched (repo_api owner repo @ ''/languages'') s1
              in case (case fetch_languages env (fetches s1) (repo_api owner repo @ ''/languages'') of
                         Rejected \<Rightarrow> None
                       | NotOk \<Rightarrow> Some []
                       | Ok None \<Rightarrow> None
                       | Ok (Some langs) \<Rightarrow> Some (langSummary_of langs)) of
                   None \<Rightarrow> (None, s2)
                 | Some langSummary \<Rightarrow>
                     (let s3 = fetched (repo_api owner repo @ ''/contents'') s2
                      in case fetch_contents env (fetches s2) (repo_api owner repo @ ''/contents'') of
                           Rejected \<Rightarrow> (None, s3)
                         | Ok None \<Rightarrow> (None, s3)
                         | NotOk \<Rightarrow>
                             (Some \<lparr>repo_name = meta_name meta, repo_url = meta_html_url meta,
                                    language_summary = langSummary, files_bundle = []\<rparr>, s3)
                         | Ok (Some contents) \<Rightarrow>
                             (case bundle_files env owner repo (targetFiles contents) [] s3 of
                                (filesBundle, s4) \<Rightarrow>
                                  (Some \<lparr>repo_name = meta_name meta, repo_url = meta_html_url meta,
                                         language_summary = langSummary,
                                         files_bundle = filesBundle\<rparr>, s4)))))"


subsection \<open>The per-artifact analyzer\<close>

text \<open>
  A \<^verbatim>\<open>GithubProject\<close> as the analyzer builds it. The response is not validated, so
  the fields copied from it are whatever it holds, possibly \<^verbatim>\<open>undefined\<close>.
\<close>

record github_project =
  name :: jsval
  summary :: string
  tech_stack :: jsval
  complexity_rating :: jsval
  resume_bullets :: jsval
  improvement_suggestions :: jsval

text \<open>
  \<^verbatim>\<open>raw.key\<close> for a value \<open>raw\<close> that is not \<^verbatim>\<open>null\<close>, and a key that is not a
  built-in property of strings or arrays: the member of an object, \<^verbatim>\<open>undefined\<close>
  otherwise.
\<close>

fun get_prop :: "json \<Rightarrow> string \<Rightarrow> jsval" where
  "get_prop (JObj kvs) k = map_of kvs k"
| "get_prop v k = None"

definition type_error :: js_error where
  "type_error = Error ''TypeError''"

definition syntax_error :: js_error where
  "syntax_error = Error ''SyntaxError''"

text \<open>The object pushed to \<^verbatim>\<open>results\<close>; reading a property of \<^verbatim>\<open>null\<close> throws.\<close>

definition to_project :: "env \<Rightarrow> json \<Rightarrow> js_error + github_project" where
  "to_project env raw =
     (if raw = JNull then Inl type_error
      else Inr \<lparr>name = get_prop raw ''project_name'',
                summary = ToString env (get_prop raw ''project_type'') @ '': '' @
                          ToString env (get_prop raw ''short_description''),
                tech_stack = get_prop raw ''tech_stack'',
                complexity_rating = get_prop raw ''complexity_rating'',
                resume_bullets = get_prop raw ''recommended_resume_bullets'',
                improvement_suggestions = get_prop raw ''improvement_suggestions''\<rparr>)"

definition repo_params :: "repo_data \<Rightarrow> gen_params" where
  "repo_params repoData =
     \<lparr>model = ''gemini-2.5-flash'',
      content_parts = [Text (RepoPrompt (repo_name repoData) (files_bundle repoData))],
      responseSchema = Some GITHUB_DEEP_ANALYSIS_SCHEMA,
      googleSearch = False, audioModality = False\<rparr>"

text \<open>The loop that fills \<^verbatim>\<open>validRepoData\<close>.\<close>

fun fetch_repos :: "env \<Rightarrow> repo_ref list \<Rightarrow> state \<Rightarrow> repo_data list \<times> state" where
  "fetch_repos env [] s = ([], s)"
| "fetch_repos env (r # rs) s =
     (case fetchGithubRepoData env (ref_owner r) (ref_repo r) s of
        (dat, s1) \<Rightarrow>
          (case fetch_repos env rs s1 of
             (ds, s2) \<Rightarrow> ((case dat of None \<Rightarrow> ds | Some d \<Rightarrow> d # ds), s2)))"

text \<open>
  The loop over \<^verbatim>\<open>validRepoData\<close>. The pacing \<^verbatim>\<open>wait(2000)\<close> is the last statement
  of the \<^verbatim>\<open>try\<close> block: a round that throws skips it.
\<close>

fun analyze_repos ::
  "env \<Rightarrow> repo_data list \<Rightarrow> github_project list \<Rightarrow> state \<Rightarrow> github_project list \<times> state" where
  "analyze_repos env [] results s = (results, s)"
| "analyze_repos env (repoData # rest) results s =
     (case generateContentWithRetry env (repo_params repoData) 3 2000 s of
        (Inl e, s1) \<Rightarrow> analyze_repos env rest results s1
      | (Inr response, s1) \<Rightarrow>
          (case resp_text response of
             None \<Rightarrow> analyze_repos env rest results (wait 2000 s1)
           | Some t \<Rightarrow>
               if t = [] then analyze_repos env rest results (wait 2000 s1)
               else (case JSON_parse env (cleanJson t) of
                       None \<Rightarrow> analyze_repos env rest results s1
                     | Some raw \<Rightarrow>
                         (case to_project env raw of
                            Inl e \<Rightarrow> analyze_repos env rest results s1
                          | Inr project \<Rightarrow>
                              analyze_repos env rest (results @ [project]) (wait 2000 s1)))))"

definition analyzeGithubReposWithAPI ::
  "env \<Rightarrow> string \<Rightarrow> state \<Rightarrow> github_project list \<times> state" where
  "analyzeGithubReposWithAPI env githubLinks s =
     (if githubLinks = [] \<or> trim githubLinks = [] then ([], s)
      else let reposToAnalyze = parseGithubInput githubLinks
           in if length reposToAnalyze = 0 then ([], s)
              else let targetRepos = take 3 reposToAnalyze
                   in case fetch_repos env targetRepos s of
                        (validRepoData, s1) \<Rightarrow>
                          if length validRepoData = 0 then ([], s1)
                          else analyze_repos env validRepoData [] s1)"

subsection \<open>The resume segment analyzer\<close>

text \<open>
  A \<^verbatim>\<open>File\<close>, with what \<^verbatim>\<open>FileReader.readAsDataURL\<close> does on it: the reader
  fails (\<^verbatim>\<open>onerror\<close> rejects the promise) or delivers the data URL.
\<close>

record js_file =
  file_type :: string
  file_dataURL :: "js_error + string"

text \<open>\<^verbatim>\<open>base64String.split(',')[1]\<close>\<close>

definition second_field :: "string \<Rightarrow> string option" where
  "second_field s =
     (case dropWhile (\<lambda>c. c \<noteq> CHR '','') s of
        [] \<Rightarrow> None
      | c # rest \<Rightarrow> Some (takeWhile (\<lambda>c. c \<noteq> CHR '','') rest))"

definition fileToGenerativePart :: "js_file \<Rightarrow> js_error + part" where
  "fileToGenerativePart f =
     (case file_dataURL f of
        Inl e \<Rightarrow> Inl e
      | Inr base64String \<Rightarrow> Inr (InlineData (second_field base64String) (file_type f)))"

definition resume_params :: "part \<Rightarrow> gen_params" where
  "resume_params resumePart =
     \<lparr>model = ''gemini-2.5-flash'',
      content_parts = [resumePart, Text ResumePrompt],
      responseSchema = Some RESUME_HIGHLIGHTS_SCHEMA,
      googleSearch = False, audioModality = False\<rparr>"

text \<open>
  \<^verbatim>\<open>analyzeResumeHighlights\<close>. The result \<open>None\<close> is \<^verbatim>\<open>null\<close>. The file is
  converted before the \<^verbatim>\<open>try\<close> block is entered.
\<close>

definition analyzeResumeHighlights ::
  "env \<Rightarrow> js_file option \<Rightarrow> state \<Rightarrow> (js_error + jsval) \<times> state" where
  "analyzeResumeHighlights env resumeFile s =
     (case resumeFile of
        None \<Rightarrow> (Inr None, s)
      | Some f \<Rightarrow>
          (case fileToGenerativePart f of
             Inl e \<Rightarrow> (Inl e, s)
           | Inr resumePart \<Rightarrow>
               (case generateContentWithRetry env (resume_params resumePart) 3 2000 s of
                  (Inl e, s1) \<Rightarrow> (Inr None, s1)
                | (Inr response, s1) \<Rightarrow>
                    (case resp_text response of
                       None \<Rightarrow> (Inr None, s1)
                     | Some t \<Rightarrow>
                         if t = [] then (Inr None, s1)
                         else (case JSON_parse env (cleanJson t) of
                                 None \<Rightarrow> (Inr None, s1)
                               | Some v \<Rightarrow> (Inr (Some v), s1))))))"

subsection \<open>The primary synthesis analyzer\<close>

text \<open>
  The value \<^verbatim>\<open>analyzeProfile\<close> returns: the value parsed from the response, and the
  two properties assigned to it afterwards, \<open>None\<close> where the assignment is skipped.
\<close>

record analysis_result =
  parsed :: json
  github_projects :: "github_project list option"
  resume_highlights :: jsval

text \<open>The top-level fields that \<^verbatim>\<open>ANALYSIS_SCHEMA\<close> lists under \<^verbatim>\<open>required\<close>.\<close>

definition analysis_required :: "string list" where
  "analysis_required =
     [''overall_scores'', ''market_analysis'', ''skill_distribution'', ''gap_skills'',
      ''competency_matrix'', ''jd_breakdown'', ''roadmap_effort'', ''roadmap_details'',
      ''roadmap_timeline'', ''employability_profile'', ''text_summaries'', ''assets'',
      ''portfolio_template'', ''interview_topics'']"

text \<open>Whether the returned object has the property \<open>k\<close>.\<close>

definition has_field :: "analysis_result \<Rightarrow> string \<Rightarrow> bool" where
  "has_field res k =
     ((k = ''github_projects'' \<and> github_projects res \<noteq> None) \<or>
      (k = ''resume_highlights'' \<and> resume_highlights res \<noteq> None) \<or>
      (case parsed res of JObj kvs \<Rightarrow> k \<in> set (map fst kvs) | _ \<Rightarrow> False))"

text \<open>
  Lines 630 to 646, the two side channels. Both \<^verbatim>\<open>try\<close> blocks catch everything.
\<close>

definition side_channels ::
  "env \<Rightarrow> js_file option \<Rightarrow> string \<Rightarrow> state \<Rightarrow> github_project list \<times> jsval \<times> state" where
  "side_channels env resume githubLinks s =
     (case analyzeGithubReposWithAPI env githubLinks s of
        (githubProjects, s1) \<Rightarrow>
          (case analyzeResumeHighlights env resume
                  (if length githubProjects > 0 then wait 1500 s1 else s1) of
             (Inl e, s2) \<Rightarrow> (githubProjects, None, s2)
           | (Inr resumeHighlights, s2) \<Rightarrow> (githubProjects, resumeHighlights, s2)))"

definition githubSummaryText :: "env \<Rightarrow> github_project list \<Rightarrow> string" where
  "githubSummaryText env githubProjects =
     (if length githubProjects > 0
      then join [CHR 0x0A, CHR 0x0A]
             (map (\<lambda>p. ''REPO: '' @ ToString env (name p) @ [CHR 0x0A] @ ''SUMMARY: '' @ summary p)
                githubProjects)
      else ''No valid GitHub repositories found or analyzed.'')"

definition main_params :: "env \<Rightarrow> part list \<Rightarrow> string \<Rightarrow> github_project list \<Rightarrow> gen_params" where
  "main_params env resumeParts jdText githubProjects =
     \<lparr>model = ''gemini-3-pro-preview'',
      content_parts = resumeParts @
        [Text (MainPrompt
                 (if jdText \<noteq> [] then jdText
                  else ''UNSPECIFIED - Auto-detect best fit role from Resume'')
                 (githubSummaryText env githubProjects))],
      responseSchema = Some ANALYSIS_SCHEMA,
      googleSearch = True, audioModality = False\<rparr>"

text \<open>
  The two assignments after the parse. The module is strict code: assigning a property to
  \<^verbatim>\<open>null\<close> or to a primitive value throws a \<^verbatim>\<open>TypeError\<close>.
\<close>

definition assignable :: "json \<Rightarrow> bool" where
  "assignable v = (case v of JObj kvs \<Rightarrow> True | JArr xs \<Rightarrow> True | _ \<Rightarrow> False)"

definition overlay :: "json \<Rightarrow> github_project list \<Rightarrow> jsval \<Rightarrow> js_error + analysis_result" where
  "overlay mainResult githubProjects resumeHighlights =
     (if (length githubProjects > 0 \<or> truthy resumeHighlights) \<and> \<not> assignable mainResult
      then Inl type_error
      else Inr \<lparr>parsed = mainResult,
                github_projects = (if length githubProjects > 0 then Some githubProjects else None),
                resume_highlights = (if truthy resumeHighlights then resumeHighlights else None)\<rparr>)"

text \<open>Lines 652 to 655: the parts start with the resume, when there is one.\<close>

definition resume_parts :: "js_file option \<Rightarrow> js_error + part list" where
  "resume_parts resume =
     (case resume of
        None \<Rightarrow> Inr []
      | Some f \<Rightarrow> (case fileToGenerativePart f of Inl e \<Rightarrow> Inl e | Inr p \<Rightarrow> Inr [p]))"

definition analyzeProfile ::
  "env \<Rightarrow> js_file option \<Rightarrow> string \<Rightarrow> string \<Rightarrow> state \<Rightarrow> (js_error + analysis_result) \<times> state" where
  "analyzeProfile env resume jdText githubLinks s =
     (case side_channels env resume githubLinks s of
        (githubProjects, resumeHighlights, s2) \<Rightarrow>
          (case resume_parts resume of
             Inl e \<Rightarrow> (Inl e, s2)
           | Inr resumeParts \<Rightarrow>
               (case generateContentWithRetry env
                       (main_params env resumeParts jdText githubProjects) 4 3000
                       (wait 2000 s2) of
                  (Inl e, s3) \<Rightarrow> (Inl e, s3)
                | (Inr mainResponse, s3) \<Rightarrow>
                    (case resp_text mainResponse of
                       None \<Rightarrow> (Inl (Error ''No response from AI''), s3)
                     | Some t \<Rightarrow>
                         if t = [] then (Inl (Error ''No response from AI''), s3)
                         else (case JSON_parse env (cleanJson t) of
                                 None \<Rightarrow> (Inl syntax_error, s3)
                               | Some mainResult \<Rightarrow>
                                   (overlay mainResult githubProjects resumeHighlights, s3))))))"

subsection \<open>The portfolio generator and the interview functions\<close>

text \<open>
  The steps of the projection that \<^verbatim>\<open>generatePortfolioHtml\<close> makes of its arguments.
  Each of them throws a \<^verbatim>\<open>TypeError\<close> or gives a value; \<open>bind_err\<close> goes on with the
  value and \<open>map_err\<close> runs a callback over a list, both stopping at the first throw.
\<close>

definition bind_err :: "js_error + 'a \<Rightarrow> ('a \<Rightarrow> js_error + 'b) \<Rightarrow> js_error + 'b" where
  "bind_err m f = (case m of Inl e \<Rightarrow> Inl e | Inr x \<Rightarrow> f x)"

fun map_err :: "('a \<Rightarrow> js_error + 'b) \<Rightarrow> 'a list \<Rightarrow> js_error + 'b list" where
  "map_err f [] = Inr []"
| "map_err f (x # xs) =
     bind_err (f x) (\<lambda>y. bind_err (map_err f xs) (\<lambda>ys. Inr (y # ys)))"

text \<open>
  \<^verbatim>\<open>v.key\<close>: reading a property of \<^verbatim>\<open>undefined\<close> or \<^verbatim>\<open>null\<close> throws.
\<close>

definition member :: "jsval \<Rightarrow> string \<Rightarrow> js_error + jsval" where
  "member v k =
     (case v of
        None \<Rightarrow> Inl type_error
      | Some JNull \<Rightarrow> Inl type_error
      | Some x \<Rightarrow> Inr (get_prop x k))"

text \<open>
  \<^verbatim>\<open>v.map(f)\<close>: only an array has the method. \<^verbatim>\<open>v.slice(0, n)\<close>: an array and a
  string have it. On every other value the call throws.
\<close>

definition js_map :: "jsval \<Rightarrow> (json \<Rightarrow> js_error + json) \<Rightarrow> js_error + json list" where
  "js_map v f = (case v of Some (JArr xs) \<Rightarrow> map_err f xs | _ \<Rightarrow> Inl type_error)"

definition js_slice :: "jsval \<Rightarrow> nat \<Rightarrow> js_error + json" where
  "js_slice v n =
     (case v of
        Some (JArr xs) \<Rightarrow> Inr (JArr (take n xs))
      | Some (JStr t) \<Rightarrow> Inr (JStr (take n t))
      | _ \<Rightarrow> Inl type_error)"

text \<open>
  The candidate profile is only ever printed, by \<^verbatim>\<open>JSON.stringify\<close>, which leaves out
  a property whose value is \<^verbatim>\<open>undefined\<close> and prints an \<^verbatim>\<open>undefined\<close> element of an
  array as \<^verbatim>\<open>null\<close>. The objects and arrays of the profile are built that way.
\<close>

definition js_object :: "(string \<times> jsval) list \<Rightarrow> json" where
  "js_object props =
     JObj (List.map_filter (\<lambda>(k, v). case v of None \<Rightarrow> None | Some x \<Rightarrow> Some (k, x)) props)"

definition js_element :: "jsval \<Rightarrow> json" where
  "js_element v = (case v of None \<Rightarrow> JNull | Some x \<Rightarrow> x)"

text \<open>\<^verbatim>\<open>a || b\<close> on two values.\<close>

definition or_else :: "jsval \<Rightarrow> jsval \<Rightarrow> jsval" where
  "or_else a b = (if truthy a then a else b)"

text \<open>
  The callback of \<^verbatim>\<open>competency_matrix.map\<close>:
  \<^verbatim>\<open>area => ({ category: area.area, skills: area.skills.map(s => s.name) })\<close>.
\<close>

definition skill_area :: "json \<Rightarrow> js_error + json" where
  "skill_area area =
     bind_err (member (Some area) ''area'') (\<lambda>category.
     bind_err (member (Some area) ''skills'') (\<lambda>skills.
     bind_err (js_map skills (\<lambda>sk. bind_err (member (Some sk) ''name'')
                                        (\<lambda>n. Inr (js_element n)))) (\<lambda>names.
       Inr (js_object [(''category'', category), (''skills'', Some (JArr names))]))))"

text \<open>The callback of \<^verbatim>\<open>github_projects.map\<close>.\<close>

definition project_entry :: "json \<Rightarrow> js_error + json" where
  "project_entry p =
     bind_err (member (Some p) ''name'') (\<lambda>n.
     bind_err (member (Some p) ''summary'') (\<lambda>sm.
     bind_err (member (Some p) ''tech_stack'') (\<lambda>ts.
     bind_err (member (Some p) ''resume_bullets'') (\<lambda>rb.
       Inr (js_object [(''name'', n), (''summary'', sm), (''tech_stack'', ts),
                       (''highlight_bullets'', rb)])))))"

text \<open>
  The argument of \<^verbatim>\<open>concat\<close>: the placeholder project when there is no project, whose
  \<^verbatim>\<open>tech_stack\<close> is \<^verbatim>\<open>analysisResult.jd_breakdown.must_have_skills.slice(0, 3)\<close>.
\<close>

definition placeholder_projects :: "json \<Rightarrow> json list \<Rightarrow> js_error + json list" where
  "placeholder_projects analysisResult projects =
     (if length projects = 0 then
        bind_err (member (Some analysisResult) ''jd_breakdown'') (\<lambda>jb.
        bind_err (member jb ''must_have_skills'') (\<lambda>mhs.
        bind_err (js_slice mhs 3) (\<lambda>stack.
          Inr [JObj [(''name'', JStr ''Key Project''),
                     (''summary'', JStr (''A significant professional achievement '' @
                                         ''demonstrating core competencies.'')),
                     (''tech_stack'', stack),
                     (''highlight_bullets'',
                        JArr [JStr ''Led successful initiative'',
                              JStr ''Improved efficiency by 20%''])]])))
      else Inr [])"

text \<open>
  Lines 745 to 779 of \<^verbatim>\<open>generatePortfolioHtml\<close>: the object literal
  \<^verbatim>\<open>candidateProfile\<close>, its properties evaluated in their order. The analysis result and
  the preferences are JSON values; nothing has checked their shape.
\<close>

definition candidateProfile :: "json \<Rightarrow> json \<Rightarrow> js_error + json" where
  "candidateProfile analysisResult preferences =
     bind_err (member (Some analysisResult) ''text_summaries'') (\<lambda>ts.
     bind_err (member ts ''candidate_name'') (\<lambda>cname.
     bind_err (member ts ''candidate_headline'') (\<lambda>cheadline.
     bind_err (if truthy cheadline then Inr cheadline
               else bind_err (member (Some analysisResult) ''jd_breakdown'')
                      (\<lambda>jb. member jb ''role_title'')) (\<lambda>headline.
     bind_err (member ts ''profile_summary'') (\<lambda>short_summary.
     bind_err (member (Some analysisResult) ''competency_matrix'') (\<lambda>cm.
     bind_err (js_map cm skill_area) (\<lambda>areas.
     bind_err (member (Some analysisResult) ''github_projects'') (\<lambda>gp.
     bind_err (js_map gp project_entry) (\<lambda>projects.
     bind_err (placeholder_projects analysisResult projects) (\<lambda>extra.
     bind_err (member (Some preferences) ''contact_email'') (\<lambda>email.
     bind_err (member (Some analysisResult) ''resume_highlights'') (\<lambda>rh.
     bind_err (if rh = None \<or> rh = Some JNull then Inr None
               else member rh ''segments'') (\<lambda>segments.
     bind_err (member ts ''strengths'') (\<lambda>strengths.
       Inr (js_object
         [(''name'', or_else cname (Some (JStr ''Candidate''))),
          (''headline'', headline),
          (''short_summary'', short_summary),
          (''key_skills'', Some (JArr (take 4 areas))),
          (''projects'', Some (JArr (projects @ extra))),
          (''links'', Some (js_object
             [(''email'', or_else email (Some (JStr ''email@example.com''))),
              (''github'', Some (JStr ''https://github.com'')),
              (''linkedin'', Some (JStr ''https://linkedin.com'')),
              (''portfolio'', Some (JStr ''#''))])),
          (''raw_analysis_context'', Some (js_object
             [(''resume_highlights'', segments),
              (''strengths'', strengths),
              (''competencies'', cm),
              (''full_summary'', short_summary)]))])))))))))))))))"

text \<open>
  The parameters of the call. The prompt embeds the candidate profile and the preferences.
\<close>

definition portfolio_params :: "json \<Rightarrow> json \<Rightarrow> gen_params" where
  "portfolio_params profile preferences =
     \<lparr>model = ''gemini-3-pro-preview'',
      content_parts = [Text (PortfolioPrompt profile preferences)],
      responseSchema = None, googleSearch = False, audioModality = False\<rparr>"

text \<open>
  \<^verbatim>\<open>generatePortfolioHtml\<close>. The profile is built before the \<^verbatim>\<open>try\<close> block is
  entered, so a throw there leaves the function; only the model call is inside the block.
\<close>

definition generatePortfolioHtml ::
  "env \<Rightarrow> json \<Rightarrow> json \<Rightarrow> state \<Rightarrow> (js_error + string) \<times> state" where
  "generatePortfolioHtml env analysisResult preferences s =
     (case candidateProfile analysisResult preferences of
        Inl e \<Rightarrow> (Inl e, s)
      | Inr profile \<Rightarrow>
          (case generateContentWithRetry env (portfolio_params profile preferences) 3 2000 s of
             (Inl e, s1) \<Rightarrow> (Inr ''<!-- Error generating portfolio -->'', s1)
           | (Inr response, s1) \<Rightarrow>
               (Inr (cleanHtml (case resp_text response of None \<Rightarrow> [] | Some t \<Rightarrow> t)), s1)))"

definition text_or :: "string option \<Rightarrow> string \<Rightarrow> string" where
  "text_or t d = (case t of None \<Rightarrow> d | Some x \<Rightarrow> if x = [] then d else x)"

definition topics_params :: "string \<Rightarrow> gen_params" where
  "topics_params role =
     \<lparr>model = ''gemini-3-pro-preview'', content_parts = [Text (TopicsPrompt role)],
      responseSchema = Some INTERVIEW_TOPICS_SCHEMA,
      googleSearch = False, audioModality = False\<rparr>"

definition generateInterviewTopics ::
  "env \<Rightarrow> string \<Rightarrow> state \<Rightarrow> (js_error + json) \<times> state" where
  "generateInterviewTopics env role s =
     (case generateContentWithRetry env (topics_params role) 3 2000 s of
        (Inl e, s1) \<Rightarrow> (Inr (JArr []), s1)
      | (Inr response, s1) \<Rightarrow>
          (case JSON_parse env (cleanJson (text_or (resp_text response) ''{}'')) of
             None \<Rightarrow> (Inr (JArr []), s1)
           | Some dat \<Rightarrow>
               if dat = JNull then (Inr (JArr []), s1)
               else (case get_prop dat ''topics'' of
                       None \<Rightarrow> (Inr (JArr []), s1)
                     | Some v \<Rightarrow> (Inr (if truthy_json v then v else JArr []), s1))))"

definition question_params :: "string \<Rightarrow> string \<Rightarrow> gen_params" where
  "question_params role topic =
     \<lparr>model = ''gemini-3-pro-preview'', content_parts = [Text (QuestionPrompt role topic)],
      responseSchema = Some INTERVIEW_QUESTION_SCHEMA,
      googleSearch = False, audioModality = False\<rparr>"

text \<open>\<^verbatim>\<open>generateInterviewQuestion\<close> has no \<^verbatim>\<open>try\<close> block.\<close>

definition generateInterviewQuestion ::
  "env \<Rightarrow> string \<Rightarrow> string \<Rightarrow> state \<Rightarrow> (js_error + json) \<times> state" where
  "generateInterviewQuestion env role topic s =
     (case generateContentWithRetry env (question_params role topic) 3 2000 s of
        (Inl e, s1) \<Rightarrow> (Inl e, s1)
      | (Inr response, s1) \<Rightarrow>
          (case JSON_parse env (cleanJson (text_or (resp_text response) ''{}'')) of
             None \<Rightarrow> (Inl syntax_error, s1)
           | Some v \<Rightarrow> (Inr v, s1)))"

definition speech_params :: "string \<Rightarrow> gen_params" where
  "speech_params t =
     \<lparr>model = ''gemini-2.5-flash-preview-tts'', content_parts = [Text (SpeechText t)],
      responseSchema = None, googleSearch = False, audioModality = True\<rparr>"

definition generateSpeech ::
  "env \<Rightarrow> string \<Rightarrow> state \<Rightarrow> (js_error + string option) \<times> state" where
  "generateSpeech env t s =
     (case generateContentWithRetry env (speech_params t) 3 2000 s of
        (Inl e, s1) \<Rightarrow> (Inr None, s1)
      | (Inr response, s1) \<Rightarrow>
          (Inr (case audioData response of
                  None \<Rightarrow> None
                | Some a \<Rightarrow> if a = [] then None else Some a), s1))"

definition transcribe_params :: "string \<Rightarrow> string \<Rightarrow> gen_params" where
  "transcribe_params audioBase64 mimeType =
     \<lparr>model = ''gemini-2.5-flash'',
      content_parts = [InlineData (Some audioBase64) mimeType, Text TranscribePrompt],
      responseSchema = None, googleSearch = False, audioModality = False\<rparr>"

definition transcribeAudio ::
  "env \<Rightarrow> string \<Rightarrow> string \<Rightarrow> state \<Rightarrow> (js_error + string) \<times> state" where
  "transcribeAudio env audioBase64 mimeType s =
     (case generateContentWithRetry env (transcribe_params audioBase64 mimeType) 3 2000 s of
        (Inl e, s1) \<Rightarrow> (Inr [], s1)
      | (Inr response, s1) \<Rightarrow> (Inr (text_or (resp_text response) []), s1))"

text \<open>
  \<^verbatim>\<open>evaluateInterviewAnswer\<close> has no \<^verbatim>\<open>try\<close> block either. The question is taken
  at its declared type \<^verbatim>\<open>InterviewQuestion\<close>.
\<close>

record interview_question =
  question_text :: string
  expected_keywords :: "string list"

definition evaluation_params :: "interview_question \<Rightarrow> string \<Rightarrow> gen_params" where
  "evaluation_params question transcript =
     \<lparr>model = ''gemini-3-pro-preview'',
      content_parts = [Text (EvaluationPrompt (question_text question)
                               (join '', '' (expected_keywords question)) transcript)],
      responseSchema = Some INTERVIEW_EVALUATION_SCHEMA,
      googleSearch = False, audioModality = False\<rparr>"

definition evaluateInterviewAnswer ::
  "env \<Rightarrow> interview_question \<Rightarrow> string \<Rightarrow> state \<Rightarrow> (js_error + json) \<times> state" where
  "evaluateInterviewAnswer env question transcript s =
     (case generateContentWithRetry env (evaluation_params question transcript) 3 2000 s of
        (Inl e, s1) \<Rightarrow> (Inl e, s1)
      | (Inr response, s1) \<Rightarrow>
          (case JSON_parse env (cleanJson (text_or (resp_text response) ''{}'')) of
             None \<Rightarrow> (Inl syntax_error, s1)
           | Some v \<Rightarrow> (Inr v, s1)))"

subsection \<open>Stages of a trace\<close>

text \<open>
  The events of the per-artifact batch are fetches, pacing delays and model calls with the
  repository schema; those of a stage that only calls the model with the schema \<open>sch\<close>
  are such calls and delays. \<open>appends P s s'\<close>: the run from \<open>s\<close> to \<open>s'\<close> has added
  events that satisfy \<open>P\<close>, and nothing else, to the trace.
\<close>

definition github_event :: "event \<Rightarrow> bool" where
  "github_event e =
     (case e of
        Generate p \<Rightarrow> responseSchema p = Some GITHUB_DEEP_ANALYSIS_SCHEMA
      | Wait n \<Rightarrow> True
      | Fetch u \<Rightarrow> True)"

definition model_event :: "schema \<Rightarrow> event \<Rightarrow> bool" where
  "model_event sch e =
     (case e of
        Generate p \<Rightarrow> responseSchema p = Some sch
      | Wait n \<Rightarrow> True
      | Fetch u \<Rightarrow> False)"

definition appends :: "(event \<Rightarrow> bool) \<Rightarrow> state \<Rightarrow> state \<Rightarrow> bool" where
  "appends P s s' = (\<exists>t. trace s' = trace s @ t \<and> list_all P t)"

subsection \<open>Fixtures\<close>

text \<open>
  Concrete environments and values for the runs evaluated below. In \<open>offline_env\<close>
  every call fails; the others change it where a run needs an answer.
\<close>

definition init_state :: state where
  "init_state = \<lparr>gen_calls = 0, fetches = 0, trace = []\<rparr>"

definition offline_env :: env where
  "offline_env =
     \<lparr>generateContent = (\<lambda>k p. Inl (Error ''fetch failed'')),
      fetch_repo = (\<lambda>k u. Rejected),
      fetch_languages = (\<lambda>k u. Rejected),
      fetch_contents = (\<lambda>k u. Rejected),
      fetch_file = (\<lambda>k u. Rejected),
      atob = (\<lambda>s. None),
      JSON_parse = (\<lambda>s. None),
      ToString = (\<lambda>v. case v of Some (JStr s) \<Rightarrow> s | _ \<Rightarrow> ''undefined'')\<rparr>"

definition quota_error :: js_error where
  "quota_error =
     \<lparr>err_status = None, err_code = None,
      err_message = ''You exceeded your current quota'', err_json = ''{}''\<rparr>"

definition some_params :: gen_params where
  "some_params =
     \<lparr>model = ''gemini-2.5-flash'', content_parts = [Text (TopicsPrompt ''Data Engineer'')],
      responseSchema = None, googleSearch = False, audioModality = False\<rparr>"

definition some_response :: gen_response where
  "some_response = \<lparr>resp_text = Some ''ok'', audioData = None\<rparr>"

definition quota_twice_env :: env where
  "quota_twice_env =
     offline_env\<lparr>generateContent := (\<lambda>k p. if k < 2 then Inl quota_error else Inr some_response)\<rparr>"

text \<open>
  A repository \<^verbatim>\<open>foo/bar\<close>. Its languages answer lists five small languages before
  the one that makes 95 percent of the bytes. Its root holds, in this order,
  \<^verbatim>\<open>main.py\<close>, a directory, \<^verbatim>\<open>package.json\<close>, \<^verbatim>\<open>README.md\<close>,
  \<^verbatim>\<open>requirements.txt\<close> and \<^verbatim>\<open>app.py\<close>. The content of \<^verbatim>\<open>main.py\<close> is 8001
  letters \<^verbatim>\<open>a\<close>, whose base64 text is 2667 times \<^verbatim>\<open>YWFh\<close>; the content of
  \<^verbatim>\<open>requirements.txt\<close> is not served. \<open>base64_table\<close> is \<^verbatim>\<open>atob\<close> on the
  three contents that are.
\<close>

definition foo_bar_langs :: "(string \<times> nat) list" where
  "foo_bar_langs =
     [(''HTML'', 1), (''CSS'', 1), (''Shell'', 1), (''Makefile'', 1), (''Dockerfile'', 1),
      (''Python'', 95)]"

definition root_entry :: "string \<Rightarrow> string \<Rightarrow> dir_entry" where
  "root_entry t n = \<lparr>entry_name = n, entry_type = t, entry_path = n\<rparr>"

definition foo_bar_root :: "dir_entry list" where
  "foo_bar_root =
     [root_entry ''file'' ''main.py'', root_entry ''dir'' ''src'',
      root_entry ''file'' ''package.json'', root_entry ''file'' ''README.md'',
      root_entry ''file'' ''requirements.txt'', root_entry ''file'' ''app.py'']"

definition long_base64 :: string where
  "long_base64 = ''YWFh'' @ concat (replicate 2666 ''YWFh'')"

definition base64_table :: "string \<Rightarrow> string option" where
  "base64_table b =
     (if b = ''IyBiYXI='' then Some ''# bar''
      else if b = ''e30='' then Some ''{}''
      else if b = long_base64 then Some (replicate 8001 CHR ''a'')
      else None)"

definition foo_bar_file :: "string \<Rightarrow> file_envelope http" where
  "foo_bar_file u =
     (if u = ''https://api.github.com/repos/foo/bar/contents/README.md''
      then Ok (Some \<lparr>env_content = ''IyBiYXI='', env_encoding = ''base64''\<rparr>)
      else if u = ''https://api.github.com/repos/foo/bar/contents/package.json''
      then Ok (Some \<lparr>env_content = ''e30='', env_encoding = ''base64''\<rparr>)
      else if u = ''https://api.github.com/repos/foo/bar/contents/main.py''
      then Ok (Some \<lparr>env_content = long_base64, env_encoding = ''base64''\<rparr>)
      else NotOk)"

definition foo_bar_env :: env where
  "foo_bar_env =
     offline_env
       \<lparr>fetch_repo := (\<lambda>k u. Ok (Some \<lparr>meta_name = ''bar'',
                                         meta_html_url = ''https://github.com/foo/bar''\<rparr>)),
        fetch_languages := (\<lambda>k u. Ok (Some foo_bar_langs)),
        fetch_contents := (\<lambda>k u. Ok (Some foo_bar_root)),
        fetch_file := (\<lambda>k u. foo_bar_file u),
        atob := base64_table\<rparr>"

text \<open>
  A model that answers every call with the text \<^verbatim>\<open>{}\<close>, an object without any field,
  over the code-hosting answers of \<open>foo_bar_env\<close> with the directory listing refused.
  \<open>parse_table\<close> is \<^verbatim>\<open>JSON.parse\<close> on that text.
\<close>

definition empty_object_response :: gen_response where
  "empty_object_response = \<lparr>resp_text = Some ''{}'', audioData = None\<rparr>"

definition parse_table :: "string \<Rightarrow> json option" where
  "parse_table t = (if t = ''{}'' then Some (JObj []) else None)"

definition empty_object_env :: env where
  "empty_object_env =
     foo_bar_env
       \<lparr>generateContent := (\<lambda>k p. Inr empty_object_response),
        fetch_contents := (\<lambda>k u. NotOk),
        JSON_parse := parse_table\<rparr>"

definition resume_pdf :: js_file where
  "resume_pdf =
     \<lparr>file_type = ''application/pdf'',
      file_dataURL = Inr ''data:application/pdf;base64,JVBERi0=''\<rparr>"

text \<open>
  A model that answers without text, and one that answers in prose, which
  \<^verbatim>\<open>JSON.parse\<close> rejects.
\<close>

definition silent_env :: env where
  "silent_env =
     offline_env\<lparr>generateContent := (\<lambda>k p. Inr \<lparr>resp_text = None, audioData = None\<rparr>)\<rparr>"

definition prose_env :: env where
  "prose_env =
     offline_env
       \<lparr>generateContent :=
          (\<lambda>k p. Inr \<lparr>resp_text = Some ''Sorry, I cannot help with that.'', audioData = None\<rparr>),
        JSON_parse := parse_table\<rparr>"

text \<open>
  An analysis result with what the projection of the portfolio generator reads, the same
  without \<^verbatim>\<open>github_projects\<close> (what the primary call returns when it lists no
  project and no repository was analysed), and the profile of the first.
\<close>

definition small_analysis :: json where
  "small_analysis =
     JObj [(''text_summaries'', JObj [(''profile_summary'', JStr ''Builds data pipelines.'')]),
           (''jd_breakdown'',
              JObj [(''role_title'', JStr ''Data Engineer''),
                    (''must_have_skills'', JArr [JStr ''SQL''])]),
           (''competency_matrix'', JArr []),
           (''github_projects'', JArr [])]"

definition analysis_without_projects :: json where
  "analysis_without_projects =
     JObj [(''text_summaries'', JObj [(''profile_summary'', JStr ''Builds data pipelines.'')]),
           (''jd_breakdown'',
              JObj [(''role_title'', JStr ''Data Engineer''),
                    (''must_have_skills'', JArr [JStr ''SQL''])]),
           (''competency_matrix'', JArr [])]"

definition small_profile :: json where
  "small_profile =
     JObj [(''name'', JStr ''Candidate''),
           (''headline'', JStr ''Data Engineer''),
           (''short_summary'', JStr ''Builds data pipelines.''),
           (''key_skills'', JArr []),
           (''projects'',
              JArr [JObj [(''name'', JStr ''Key Project''),
                          (''summary'', JStr (''A significant professional achievement '' @
                                              ''demonstrating core competencies.'')),
                          (''tech_stack'', JArr [JStr ''SQL'']),
                          (''highlight_bullets'',
                             JArr [JStr ''Led successful initiative'',
                                   JStr ''Improved efficiency by 20%''])]]),
           (''links'',
              JObj [(''email'', JStr ''email@example.com''),
                    (''github'', JStr ''https://github.com''),
                    (''linkedin'', JStr ''https://linkedin.com''),
                    (''portfolio'', JStr ''#'')]),
           (''raw_analysis_context'',
              JObj [(''competencies'', JArr []),
                    (''full_summary'', JStr ''Builds data pipelines.'')])]"


definition join_question :: interview_question where
  "join_question = \<lparr>question_text = ''What is a join?'', expected_keywords = [''inner'', ''outer'']\<rparr>"

section \<open>The retry wrapper\<close>

lemma retry_loop_quota_then_success:
  assumes "int (i + n) < retries"
    and "\<And>k. k < n \<Longrightarrow> \<exists>e. generateContent env (gen_calls s + k) params = Inl e \<and> isQuotaError e"
    and "generateContent env (gen_calls s + n) params = Inr r"
  shows "retry_loop env params retries initialDelay i s =
           (Inr r, s\<lparr>gen_calls := gen_calls s + n + 1,
                     trace := trace s @ backoff_trace params initialDelay i n\<rparr>)"
  using assms
proof (induction n arbitrary: i s)
  case 0
  then show ?case
    by (subst retry_loop.simps) (simp add: invoke_def backoff_trace_def)
next
  case (Suc n)
  from Suc.prems(2) [of 0] obtain e
    where e: "generateContent env (gen_calls s) params = Inl e" "isQuotaError e"
    by auto
  let ?s1 = "wait (initialDelay * 2 ^ i)
               (s\<lparr>gen_calls := Suc (gen_calls s), trace := trace s @ [Generate params]\<rparr>)"
  have calls: "gen_calls ?s1 = Suc (gen_calls s)"
    by (simp add: wait_def)
  have "retry_loop env params retries initialDelay (Suc i) ?s1 =
          (Inr r, ?s1\<lparr>gen_calls := gen_calls ?s1 + n + 1,
                       trace := trace ?s1 @ backoff_trace params initialDelay (Suc i) n\<rparr>)"
  proof (rule Suc.IH)
    show "int (Suc i + n) < retries" using Suc.prems(1) by simp
    show "\<exists>e. generateContent env (gen_calls ?s1 + k) params = Inl e \<and> isQuotaError e"
      if "k < n" for k
      using Suc.prems(2) [of "Suc k"] that by (simp add: calls)
    show "generateContent env (gen_calls ?s1 + n) params = Inr r"
      using Suc.prems(3) by (simp add: calls)
  qed
  moreover have "backoff_trace params initialDelay i (Suc n) =
      [Generate params, Wait (initialDelay * 2 ^ i)] @ backoff_trace params initialDelay (Suc i) n"
    by (simp add: backoff_trace_def upt_conv_Cons map_Suc_upt [symmetric] comp_def del: upt_Suc)
  moreover have "int i < retries - 1" using Suc.prems(1) by simp
  ultimately show ?case
    using e by (subst retry_loop.simps) (simp add: invoke_def wait_def)
qed

lemma retry_loop_other_error:
  assumes "int i < retries"
    and "generateContent env (gen_calls s) params = Inl e"
    and "\<not> isQuotaError e"
  shows "retry_loop env params retries initialDelay i s =
           (Inl e, s\<lparr>gen_calls := gen_calls s + 1, trace := trace s @ [Generate params]\<rparr>)"
  using assms by (subst retry_loop.simps) (simp add: invoke_def)

lemma retry_loop_last_call:
  assumes "int i < retries"
    and "retry_loop env params retries initialDelay i s = (res, s')"
  shows "gen_calls s < gen_calls s' \<and> res = generateContent env (gen_calls s' - 1) params"
  using assms
proof (induction "nat (retries - int i)" arbitrary: i s)
  case 0
  then show ?case by simp
next
  case (Suc m)
  let ?s1 = "s\<lparr>gen_calls := Suc (gen_calls s), trace := trace s @ [Generate params]\<rparr>"
  show ?case
  proof (cases "generateContent env (gen_calls s) params")
    case (Inr result)
    with Suc.prems show ?thesis
      by (subst (asm) retry_loop.simps) (auto simp: invoke_def)
  next
    case (Inl error)
    show ?thesis
    proof (cases "isQuotaError error \<and> int i < retries - 1")
      case False
      with Inl Suc.prems show ?thesis
        by (subst (asm) retry_loop.simps) (auto simp: invoke_def)
    next
      case True
      let ?s2 = "wait (initialDelay * 2 ^ i) ?s1"
      from True Inl Suc.prems
      have run: "retry_loop env params retries initialDelay (Suc i) ?s2 = (res, s')"
        by (subst (asm) retry_loop.simps) (simp add: invoke_def)
      have "m = nat (retries - int (Suc i))" using Suc.hyps(2) by simp
      moreover have "int (Suc i) < retries" using True by simp
      ultimately have "gen_calls ?s2 < gen_calls s' \<and> res = generateContent env (gen_calls s' - 1) params"
        using run by (rule Suc.hyps(1))
      then show ?thesis by (simp add: wait_def)
    qed
  qed
qed

text \<open>
  C3. Let the wrapper run with retry count \<open>R\<close> and initial delay \<open>D\<close>. If the next
  \<open>N\<close> calls of the underlying invoker fail with a quota error and the one after them
  succeeds, with \<open>N < R\<close>, the wrapper returns that success after exactly \<open>N + 1\<close>
  calls, and what it did is: call, sleep \<open>D * 2 ^ 0\<close>, call, sleep \<open>D * 2 ^ 1\<close>, ...,
  call. So nothing is slept before the first attempt and \<open>D * 2 ^ i\<close> is slept after the
  failed attempt number \<open>i\<close>. If the first call throws an error that is not a quota
  error (the invoker is called at all when \<open>1 \<le> R\<close>), the wrapper makes that one call,
  sleeps nothing and throws the same error.
\<close>

theorem generateContentWithRetry_backoff:
  "(int N < R \<and>
    (\<forall>k<N. \<exists>e. generateContent env (gen_calls s + k) p = Inl e \<and> isQuotaError e) \<and>
    generateContent env (gen_calls s + N) p = Inr r
    \<longrightarrow> generateContentWithRetry env p R D s =
          (Inr r, s\<lparr>gen_calls := gen_calls s + N + 1,
                    trace := trace s
                      @ concat (map (\<lambda>i. [Generate p, Wait (D * 2 ^ i)]) [0..<N])
                      @ [Generate p]\<rparr>))
   \<and>
   (1 \<le> R \<and> generateContent env (gen_calls s) p = Inl e' \<and> \<not> isQuotaError e'
    \<longrightarrow> generateContentWithRetry env p R D s =
          (Inl e', s\<lparr>gen_calls := gen_calls s + 1, trace := trace s @ [Generate p]\<rparr>))"
proof (intro conjI impI)
  assume h: "int N < R \<and>
    (\<forall>k<N. \<exists>e. generateContent env (gen_calls s + k) p = Inl e \<and> isQuotaError e) \<and>
    generateContent env (gen_calls s + N) p = Inr r"
  have "retry_loop env p R D 0 s =
          (Inr r, s\<lparr>gen_calls := gen_calls s + N + 1,
                    trace := trace s @ backoff_trace p D 0 N\<rparr>)"
    by (rule retry_loop_quota_then_success) (use h in auto)
  then show "generateContentWithRetry env p R D s =
          (Inr r, s\<lparr>gen_calls := gen_calls s + N + 1,
                    trace := trace s
                      @ concat (map (\<lambda>i. [Generate p, Wait (D * 2 ^ i)]) [0..<N])
                      @ [Generate p]\<rparr>)"
    by (simp add: generateContentWithRetry_def backoff_trace_def)
next
  assume h: "1 \<le> R \<and> generateContent env (gen_calls s) p = Inl e' \<and> \<not> isQuotaError e'"
  then have "int 0 < R" by simp
  then show "generateContentWithRetry env p R D s =
          (Inl e', s\<lparr>gen_calls := gen_calls s + 1, trace := trace s @ [Generate p]\<rparr>)"
    unfolding generateContentWithRetry_def
    by (rule retry_loop_other_error) (use h in auto)
qed

lemma quota_error_is_quota: "isQuotaError quota_error"
  by code_simp

lemma fetch_failed_is_not_quota: "\<not> isQuotaError (Error ''fetch failed'')"
  by code_simp

theorem generateContentWithRetry_backoff_witness:
  "generateContentWithRetry quota_twice_env some_params 3 2000 init_state =
     (Inr some_response,
      \<lparr>gen_calls = 3, fetches = 0,
       trace = [Generate some_params, Wait 2000, Generate some_params, Wait 4000,
                Generate some_params]\<rparr>)
   \<and> generateContentWithRetry offline_env some_params 4 3000 init_state =
     (Inl (Error ''fetch failed''),
      \<lparr>gen_calls = 1, fetches = 0, trace = [Generate some_params]\<rparr>)"
proof -
  have two: "[0..<2] = [0, Suc 0]"
    by (simp add: numeral_2_eq_2)
  have a: "int 2 < 3 \<and>
    (\<forall>k<2. \<exists>e. generateContent quota_twice_env (gen_calls init_state + k) some_params = Inl e
                 \<and> isQuotaError e) \<and>
    generateContent quota_twice_env (gen_calls init_state + 2) some_params = Inr some_response"
    by (simp add: quota_twice_env_def quota_error_is_quota init_state_def)
  have b: "1 \<le> (4::int) \<and>
    generateContent offline_env (gen_calls init_state) some_params = Inl (Error ''fetch failed'')
    \<and> \<not> isQuotaError (Error ''fetch failed'')"
    by (simp add: offline_env_def fetch_failed_is_not_quota)
  from a b
    generateContentWithRetry_backoff
      [where N = 2 and R = 3 and env = quota_twice_env and s = init_state
         and p = some_params and r = some_response and D = 2000]
    generateContentWithRetry_backoff
      [where R = 4 and env = offline_env and s = init_state and p = some_params
         and e' = "Error ''fetch failed''" and D = 3000]
  show ?thesis
    by (simp add: init_state_def two)
qed

lemma retry_loop_final_is_retry_loop:
  "retry_loop_final (Inl max_retries_error) env params retries initialDelay i s =
     retry_loop env params retries initialDelay i s"
proof (induction "nat (retries - int i)" arbitrary: i s)
  case 0
  then show ?case
    by (subst retry_loop_final.simps, subst retry_loop.simps) simp
next
  case (Suc m)
  have "m = nat (retries - int (Suc i))" using Suc.hyps(2) by simp
  then have "retry_loop_final (Inl max_retries_error) env params retries initialDelay (Suc i) s2 =
     retry_loop env params retries initialDelay (Suc i) s2" for s2
    by (rule Suc.hyps(1))
  then show ?case
    by (subst retry_loop_final.simps, subst retry_loop.simps)
       (simp split: prod.splits sum.splits)
qed

lemma retry_loop_final_irrelevant:
  assumes "int i < retries"
  shows "retry_loop_final x env params retries initialDelay i s =
         retry_loop_final y env params retries initialDelay i s"
  using assms
proof (induction "nat (retries - int i)" arbitrary: i s)
  case 0
  then show ?case by simp
next
  case (Suc m)
  have step: "retry_loop_final x env params retries initialDelay (Suc i) s2 =
      retry_loop_final y env params retries initialDelay (Suc i) s2"
    if "int i < retries - 1" for s2
  proof (rule Suc.hyps(1))
    show "m = nat (retries - int (Suc i))" using Suc.hyps(2) by simp
    show "int (Suc i) < retries" using that by simp
  qed
  show ?case
    using Suc.prems
    by (subst retry_loop_final.simps, subst (2) retry_loop_final.simps)
       (simp add: step split: prod.splits sum.splits)
qed

text \<open>
  C10. With a retry count of at least 1 the wrapper makes at least one call of the
  underlying invoker, and what it returns or throws is what its last call of the invoker
  returned or threw. The last line,
  \<^verbatim>\<open>throw new Error("Max retries exceeded for Gemini API")\<close>, is not reached: with any
  other outcome \<open>x\<close> in its place the wrapper does the same. So no error is fabricated.
\<close>

theorem generateContentWithRetry_never_fabricates:
  assumes "1 \<le> R"
    and "generateContentWithRetry env p R D s = (res, s')"
  shows "gen_calls s < gen_calls s' \<and> res = generateContent env (gen_calls s' - 1) p
       \<and> retry_loop_final x env p R D 0 s = (res, s')"
proof -
  have pos: "int 0 < R" using assms(1) by simp
  have run: "retry_loop env p R D 0 s = (res, s')"
    using assms(2) by (simp add: generateContentWithRetry_def)
  have "gen_calls s < gen_calls s' \<and> res = generateContent env (gen_calls s' - 1) p"
    using pos run by (rule retry_loop_last_call)
  moreover have "retry_loop_final x env p R D 0 s =
      retry_loop_final (Inl max_retries_error) env p R D 0 s"
    using pos by (rule retry_loop_final_irrelevant)
  ultimately show ?thesis
    using run by (simp add: retry_loop_final_is_retry_loop)
qed

theorem generateContentWithRetry_never_fabricates_witness:
  "1 \<le> (3::int) \<and>
   fst (generateContentWithRetry quota_twice_env some_params 3 2000 init_state)
     = generateContent quota_twice_env 2 some_params \<and>
   gen_calls (snd (generateContentWithRetry quota_twice_env some_params 3 2000 init_state)) = 3 \<and>
   retry_loop_final (Inr some_response) quota_twice_env some_params 3 2000 0 init_state
     = generateContentWithRetry quota_twice_env some_params 3 2000 init_state"
proof -
  have run: "generateContentWithRetry quota_twice_env some_params 3 2000 init_state =
     (Inr some_response,
      \<lparr>gen_calls = 3, fetches = 0,
       trace = [Generate some_params, Wait 2000, Generate some_params, Wait 4000,
                Generate some_params]\<rparr>)"
    by code_simp
  have one: "1 \<le> (3::int)" by simp
  have last_call: "generateContent quota_twice_env 2 some_params = Inr some_response"
    by (simp add: quota_twice_env_def)
  from generateContentWithRetry_never_fabricates [OF one run, of "Inr some_response"]
  show ?thesis
    by (simp add: run last_call)
qed

section \<open>The artifact fetcher\<close>

lemma foo_bar_targets:
  "targetFiles foo_bar_root =
     [root_entry ''file'' ''README.md'', root_entry ''file'' ''package.json'',
      root_entry ''file'' ''requirements.txt'', root_entry ''file'' ''main.py'']"
  by code_simp

lemma foo_bar_summary:
  "langSummary_of foo_bar_langs = ''HTML 1%, CSS 1%, Shell 1%, Makefile 1%, Dockerfile 1%''"
  by code_simp

lemma foo_bar_run:
  "fetchGithubRepoData foo_bar_env ''foo'' ''bar'' init_state =
  (Some \<lparr>repo_name = ''bar'', repo_url = ''https://github.com/foo/bar'',
     language_summary = ''HTML 1%, CSS 1%, Shell 1%, Makefile 1%, Dockerfile 1%'',
     files_bundle = ''FILE: README.md'' @ [CHR 0x0A] @ ''# bar'' @ [CHR 0x0A, CHR 0x0A]
       @ ''FILE: package.json'' @ [CHR 0x0A] @ ''{}'' @ [CHR 0x0A, CHR 0x0A]
       @ ''FILE: main.py'' @ [CHR 0x0A] @ replicate 8000 CHR ''a'' @ truncation_marker
       @ [CHR 0x0A, CHR 0x0A]\<rparr>,
   \<lparr>gen_calls = 0, fetches = 7,
    trace = [Fetch ''https://api.github.com/repos/foo/bar'',
             Fetch ''https://api.github.com/repos/foo/bar/languages'',
             Fetch ''https://api.github.com/repos/foo/bar/contents'',
             Fetch ''https://api.github.com/repos/foo/bar/contents/README.md'',
             Fetch ''https://api.github.com/repos/foo/bar/contents/package.json'',
             Fetch ''https://api.github.com/repos/foo/bar/contents/requirements.txt'',
             Fetch ''https://api.github.com/repos/foo/bar/contents/main.py'']\<rparr>)"
  by (simp add: fetchGithubRepoData_def foo_bar_env_def offline_env_def foo_bar_file_def
        repo_api_def fetched_def init_state_def base64_table_def long_base64_def
        foo_bar_targets foo_bar_summary root_entry_def file_block_def
        fetchGithubFileContent_def)

lemma fetch_main_py:
  "fetchGithubFileContent foo_bar_env ''foo'' ''bar'' ''main.py'' init_state =
     (Some (replicate 8001 CHR ''a''),
      \<lparr>gen_calls = 0, fetches = 1,
       trace = [Fetch ''https://api.github.com/repos/foo/bar/contents/main.py'']\<rparr>)"
  by (simp add: fetchGithubFileContent_def foo_bar_env_def offline_env_def foo_bar_file_def
        repo_api_def fetched_def init_state_def base64_table_def long_base64_def)

lemma fetch_readme:
  "fetchGithubFileContent foo_bar_env ''foo'' ''bar'' ''README.md'' init_state =
     (Some ''# bar'',
      \<lparr>gen_calls = 0, fetches = 1,
       trace = [Fetch ''https://api.github.com/repos/foo/bar/contents/README.md'']\<rparr>)"
  by (simp add: fetchGithubFileContent_def foo_bar_env_def offline_env_def foo_bar_file_def
        repo_api_def fetched_def init_state_def base64_table_def long_base64_def)

text \<open>
  C5. Take a round of the loop over the target files in which the content fetch returns a
  content that passes the guard \<^verbatim>\<open>if (content)\<close>, that is, a non-empty one (an empty
  content is not stored at all). The round appends \<^verbatim>\<open>FILE: path\<close>, a line feed, the
  stored content and two line feeds. If the content is longer than 8000 characters, the
  stored content is its first 8000 characters followed by the truncation marker, so its
  length is 8000 plus the length of the marker; otherwise it is the content, unchanged.
\<close>

theorem file_content_truncation:
  assumes "fetchGithubFileContent env owner repo (entry_path fl) s = (Some content, s1)"
    and "content \<noteq> []"
  shows "\<exists>stored.
      bundle_files env owner repo (fl # rest) filesBundle s =
        bundle_files env owner repo rest
          (filesBundle @ ''FILE: '' @ entry_path fl @ [CHR 0x0A] @ stored @ [CHR 0x0A, CHR 0x0A]) s1
    \<and> (8000 < length content
         \<longrightarrow> stored = take 8000 content @ truncation_marker
           \<and> length stored = 8000 + length truncation_marker)
    \<and> (length content \<le> 8000 \<longrightarrow> stored = content)"
proof (cases "8000 < length content")
  case True
  then show ?thesis
    using assms by (intro exI [of _ "take 8000 content @ truncation_marker"])
      (simp add: file_block_def)
next
  case False
  then show ?thesis
    using assms by (intro exI [of _ content]) (simp add: file_block_def)
qed

theorem file_content_truncation_witness:
  "bundle_files foo_bar_env ''foo'' ''bar'' [root_entry ''file'' ''main.py''] [] init_state =
     (''FILE: main.py'' @ [CHR 0x0A] @ replicate 8000 CHR ''a'' @ truncation_marker
        @ [CHR 0x0A, CHR 0x0A],
      \<lparr>gen_calls = 0, fetches = 1,
       trace = [Fetch ''https://api.github.com/repos/foo/bar/contents/main.py'']\<rparr>)
   \<and> bundle_files foo_bar_env ''foo'' ''bar'' [root_entry ''file'' ''README.md''] [] init_state =
     (''FILE: README.md'' @ [CHR 0x0A] @ ''# bar'' @ [CHR 0x0A, CHR 0x0A],
      \<lparr>gen_calls = 0, fetches = 1,
       trace = [Fetch ''https://api.github.com/repos/foo/bar/contents/README.md'']\<rparr>)"
proof -
  have long: "fetchGithubFileContent foo_bar_env ''foo'' ''bar''
                (entry_path (root_entry ''file'' ''main.py'')) init_state =
     (Some (replicate 8001 CHR ''a''),
      \<lparr>gen_calls = 0, fetches = 1,
       trace = [Fetch ''https://api.github.com/repos/foo/bar/contents/main.py'']\<rparr>)"
    by (simp add: root_entry_def fetch_main_py)
  have short: "fetchGithubFileContent foo_bar_env ''foo'' ''bar''
                (entry_path (root_entry ''file'' ''README.md'')) init_state =
     (Some ''# bar'',
      \<lparr>gen_calls = 0, fetches = 1,
       trace = [Fetch ''https://api.github.com/repos/foo/bar/contents/README.md'']\<rparr>)"
    by (simp add: root_entry_def fetch_readme)
  have ne: "replicate 8001 CHR ''a'' \<noteq> []" "''# bar'' \<noteq> []"
    by simp_all
  from file_content_truncation [OF long ne(1), of "[]" "[]"]
    file_content_truncation [OF short ne(2), of "[]" "[]"]
  show ?thesis
    by (auto simp: root_entry_def)
qed












lemma fetchGithubRepoData_languages:
  assumes "fetchGithubRepoData env owner repo s = (Some dat, s')"
    and "fetch_languages env (fetches s + 1) (repo_api owner repo @ ''/languages'') = Ok (Some langs)"
  shows "language_summary dat = langSummary_of langs"
  using assms
  by (auto simp: fetchGithubRepoData_def fetched_def Let_def
           split: http.splits option.splits prod.splits)





lemma fold_add_sum_list: "fold (\<lambda>b a. a + b) xs (n::nat) = n + sum_list xs"
  by (induction xs arbitrary: n) simp_all

lemma Math_round_nearest: "\<bar>of_int (Math_round x) - x\<bar> \<le> 1 / 2"
  unfolding Math_round_def by linarith

text \<open>
  C8, as the code has it. The summary is built from the entries of the languages answer
  in the order of the answer, and \<^verbatim>\<open>slice(0, 5)\<close> keeps the first five of them: the
  entries are not sorted by share. Each one is the language name, a space, the percentage
  and a percent sign, the entries joined by a comma and a space; for a positive total the
  percentage is a nearest integer to the share of the total bytes, in percent.
\<close>

theorem language_summary_first_five:
  assumes "fetchGithubRepoData env owner repo s = (Some dat, s')"
    and "fetch_languages env (fetches s + 1) (repo_api owner repo @ ''/languages'')
           = Ok (Some langs)"
    and "0 < sum_list (map snd langs)"
  shows "\<exists>pct.
      language_summary dat =
        join '', '' (map (\<lambda>lb. fst lb @ '' '' @ show_int (pct (snd lb)) @ ''%'') (take 5 langs))
    \<and> (\<forall>b. \<bar>of_int (pct b) - 100 * of_nat b / of_nat (sum_list (map snd langs))\<bar>
             \<le> (1 / 2 :: rat))"
proof -
  let ?total = "sum_list (map snd langs)"
  let ?pct = "\<lambda>b. Math_round ((of_nat b / of_nat ?total) * 100)"
  have "language_summary dat = langSummary_of langs"
    using assms(1,2) by (rule fetchGithubRepoData_languages)
  also have "\<dots> = join '', '' (map (lang_entry ?total) (take 5 langs))"
    by (simp add: langSummary_of_def fold_add_sum_list take_map)
  also have "lang_entry ?total = (\<lambda>lb. fst lb @ '' '' @ show_int (?pct (snd lb)) @ ''%'')"
    using assms(3) by (intro ext) (simp add: lang_entry_def del: sum_list_eq_0_iff)
  finally have a: "language_summary dat = join '', ''
      (map (\<lambda>lb. fst lb @ '' '' @ show_int (?pct (snd lb)) @ ''%'') (take 5 langs))" .
  have b: "\<bar>of_int (?pct b) - 100 * of_nat b / of_nat ?total\<bar> \<le> (1 / 2 :: rat)" for b
    using Math_round_nearest [of "(of_nat b / of_nat ?total) * 100"]
    by (simp add: mult.commute)
  from a b show ?thesis
    by (intro exI [of _ ?pct]) simp
qed

theorem language_summary_first_five_witness:
  "language_summary (the (fst (fetchGithubRepoData foo_bar_env ''foo'' ''bar'' init_state))) =
     ''HTML 1%, CSS 1%, Shell 1%, Makefile 1%, Dockerfile 1%''
   \<and> 0 < sum_list (map snd foo_bar_langs)
   \<and> (\<exists>pct. ''HTML 1%, CSS 1%, Shell 1%, Makefile 1%, Dockerfile 1%'' =
         join '', '' (map (\<lambda>lb. fst lb @ '' '' @ show_int (pct (snd lb)) @ ''%'')
                        (take 5 foo_bar_langs)))"
proof -
  note run = foo_bar_run
  have langs: "fetch_languages foo_bar_env (fetches init_state + 1)
                 (repo_api ''foo'' ''bar'' @ ''/languages'') = Ok (Some foo_bar_langs)"
    by (simp add: foo_bar_env_def offline_env_def)
  have pos: "0 < sum_list (map snd foo_bar_langs)"
    by (simp add: foo_bar_langs_def)
  from language_summary_first_five [OF run langs pos] pos
  show ?thesis
    by (auto simp: run)
qed

text \<open>
  C8, as the claim has it, fails on the repository \<^verbatim>\<open>foo/bar\<close>: Python makes 95 percent
  of its bytes and is the sixth entry of the answer, and the summary lists the five
  entries before it, of 1 percent each.
\<close>

theorem language_summary_top_five_counterexample:
  "fetchGithubRepoData foo_bar_env ''foo'' ''bar'' init_state =
     (Some \<lparr>repo_name = ''bar'', repo_url = ''https://github.com/foo/bar'',
        language_summary = ''HTML 1%, CSS 1%, Shell 1%, Makefile 1%, Dockerfile 1%'',
        files_bundle = ''FILE: README.md'' @ [CHR 0x0A] @ ''# bar'' @ [CHR 0x0A, CHR 0x0A]
          @ ''FILE: package.json'' @ [CHR 0x0A] @ ''{}'' @ [CHR 0x0A, CHR 0x0A]
          @ ''FILE: main.py'' @ [CHR 0x0A] @ replicate 8000 CHR ''a'' @ truncation_marker
          @ [CHR 0x0A, CHR 0x0A]\<rparr>,
      \<lparr>gen_calls = 0, fetches = 7,
       trace = [Fetch ''https://api.github.com/repos/foo/bar'',
                Fetch ''https://api.github.com/repos/foo/bar/languages'',
                Fetch ''https://api.github.com/repos/foo/bar/contents'',
                Fetch ''https://api.github.com/repos/foo/bar/contents/README.md'',
                Fetch ''https://api.github.com/repos/foo/bar/contents/package.json'',
                Fetch ''https://api.github.com/repos/foo/bar/contents/requirements.txt'',
                Fetch ''https://api.github.com/repos/foo/bar/contents/main.py'']\<rparr>)
   \<and> fetch_languages foo_bar_env 1 ''https://api.github.com/repos/foo/bar/languages'' =
       Ok (Some [(''HTML'', 1), (''CSS'', 1), (''Shell'', 1), (''Makefile'', 1),
                 (''Dockerfile'', 1), (''Python'', 95)])"
  by (simp add: foo_bar_run) (simp add: foo_bar_env_def offline_env_def foo_bar_langs_def)


section \<open>The reference parser\<close>

lemma owner_repo_valid:
  assumes "owner_repo s = Some (m1, m2)"
  shows "1 \<le> length m1 \<and> length m1 \<le> 39 \<and> (\<forall>c\<in>set m1. isOwnerChar c) \<and>
         m2 \<noteq> [] \<and> (\<forall>c\<in>set m2. isRepoChar c)"
  using assms
  by (auto simp: owner_repo_def Let_def split: if_splits dest: set_takeWhileD)

lemma match_here_valid:
  assumes "match_here b s = Some (m1, m2)"
  shows "1 \<le> length m1 \<and> length m1 \<le> 39 \<and> (\<forall>c\<in>set m1. isOwnerChar c) \<and>
         m2 \<noteq> [] \<and> (\<forall>c\<in>set m2. isRepoChar c)"
  using assms owner_repo_valid
  by (auto simp: match_here_def split: option.splits if_splits)

lemma match_from_valid:
  assumes "match_from b s = Some (m1, m2)"
  shows "1 \<le> length m1 \<and> length m1 \<le> 39 \<and> (\<forall>c\<in>set m1. isOwnerChar c) \<and>
         m2 \<noteq> [] \<and> (\<forall>c\<in>set m2. isRepoChar c)"
  using assms
proof (induction s arbitrary: b)
  case Nil
  then show ?case using match_here_valid by simp
next
  case (Cons c cs)
  show ?case
  proof (cases "match_here b (c # cs)")
    case None
    with Cons.prems have "match_from False cs = Some (m1, m2)" by simp
    then show ?thesis by (rule Cons.IH)
  next
    case (Some m)
    with Cons.prems have "match_here b (c # cs) = Some (m1, m2)" by simp
    then show ?thesis by (rule match_here_valid)
  qed
qed

lemma parse_link_valid:
  assumes "parse_link link = Some r"
  shows "valid_ref r"
proof -
  from assms obtain m1 m2
    where m: "match_from True (strip_trailing_slash (trim link)) = Some (m1, m2)"
      and r: "r = \<lparr>ref_owner = m1, ref_repo = m2,
                    ref_url = ''https://github.com/'' @ m1 @ ''/'' @ m2\<rparr>"
    by (auto simp: parse_link_def Let_def split: option.splits)
  from match_from_valid [OF m] r show ?thesis
    by (simp add: valid_ref_def)
qed

lemma map_set_keys:
  "map fst (map_set m k v) = (if k \<in> set (map fst m) then map fst m else map fst m @ [k])"
  by (induction m) (force simp: image_iff)+

lemma map_set_values: "set (map_set m k v) \<subseteq> insert (k, v) (set m)"
  by (induction m) (auto split: if_splits)

lemma fold_map_set_invariant:
  assumes "distinct (map fst m)" and "\<forall>(k, v)\<in>set m. k = ref_url v \<and> v \<in> A"
    and "set rs \<subseteq> A"
  shows "distinct (map fst (fold (\<lambda>r m. map_set m (ref_url r) r) rs m)) \<and>
         (\<forall>(k, v)\<in>set (fold (\<lambda>r m. map_set m (ref_url r) r) rs m). k = ref_url v \<and> v \<in> A)"
  using assms
proof (induction rs arbitrary: m)
  case Nil
  then show ?case by simp
next
  case (Cons r rs)
  have "distinct (map fst (map_set m (ref_url r) r))"
    using Cons.prems(1) by (simp add: map_set_keys)
  moreover have "\<forall>(k, v)\<in>set (map_set m (ref_url r) r). k = ref_url v \<and> v \<in> A"
    using Cons.prems(2,3) map_set_values [of m "ref_url r" r] by auto
  moreover have "set rs \<subseteq> A" using Cons.prems(3) by simp
  ultimately show ?case
    using Cons.IH by simp
qed

lemma parseGithubInput_sound:
  "distinct (map ref_url (parseGithubInput input)) \<and>
   (\<forall>r\<in>set (parseGithubInput input).
      \<exists>link\<in>set (split_sep input). link \<noteq> [] \<and> parse_link link = Some r)"
proof -
  let ?A = "{r. \<exists>link\<in>set (split_sep input). link \<noteq> [] \<and> parse_link link = Some r}"
  let ?repos = "List.map_filter parse_link (filter (\<lambda>l. l \<noteq> []) (split_sep input))"
  let ?unique = "fold (\<lambda>r m. map_set m (ref_url r) r) ?repos []"
  have "set ?repos \<subseteq> ?A"
    by (auto simp: map_filter_def)
  then have inv: "distinct (map fst ?unique) \<and> (\<forall>(k, v)\<in>set ?unique. k = ref_url v \<and> v \<in> ?A)"
    by (intro fold_map_set_invariant) simp_all
  then have "\<forall>x\<in>set ?unique. (ref_url \<circ> snd) x = fst x"
    by auto
  then have eq: "map (ref_url \<circ> snd) ?unique = map fst ?unique"
    by (simp cong: map_cong)
  have "distinct (map ref_url (map snd ?unique))"
    unfolding map_map eq using inv by (rule conjunct1)
  moreover have "\<forall>r\<in>set (map snd ?unique). r \<in> ?A"
    using inv by auto
  ultimately show ?thesis
    by (simp add: parseGithubInput_def Let_def)
qed

lemma split_sep_nonempty: "split_sep s \<noteq> []"
  by (induction s) (auto split: list.splits)

lemma split_sep_field:
  assumes "\<forall>c\<in>set t. \<not> isSep c"
  shows "split_sep (t @ rest) = (t @ hd (split_sep rest)) # tl (split_sep rest)"
  using assms
proof (induction t)
  case Nil
  then show ?case using split_sep_nonempty [of rest] by simp
next
  case (Cons c t)
  then show ?case by simp
qed

lemma split_sep_run:
  assumes "sep \<noteq> []" and "\<forall>c\<in>set sep. isSep c" and "rest = [] \<or> \<not> isSep (hd rest)"
  shows "split_sep (sep @ rest) = [] # split_sep rest"
  using assms
proof (induction sep)
  case Nil
  then show ?case by simp
next
  case (Cons c sep)
  show ?case
  proof (cases sep)
    case Nil
    with Cons.prems show ?thesis by auto
  next
    case (Cons c' sep')
    with Cons.prems Cons.IH show ?thesis by auto
  qed
qed

lemma split_sep_two:
  assumes "\<forall>c\<in>set t. \<not> isSep c" and "\<forall>c\<in>set u. \<not> isSep c" and "u \<noteq> []"
    and "sep \<noteq> []" and "\<forall>c\<in>set sep. isSep c"
  shows "split_sep (t @ sep @ u) = [t, u]"
proof -
  have u: "split_sep u = [u]"
    using split_sep_field [OF assms(2), of "[]"] by simp
  have "\<not> isSep (hd u)" using assms(2,3) by (cases u) auto
  then have "split_sep (sep @ u) = [[], u]"
    using split_sep_run [OF assms(4,5), of u] u by simp
  then show ?thesis
    using split_sep_field [OF assms(1), of "sep @ u"] by simp
qed

lemma trim_no_space:
  assumes "\<forall>c\<in>set s. \<not> isSpace c"
  shows "trim s = s"
proof -
  have keep: "dropWhile isSpace xs = xs" if "\<forall>c\<in>set xs. \<not> isSpace c" for xs
    using that by (cases xs) auto
  have "dropWhile isSpace s = s"
    using assms by (rule keep)
  moreover have "dropWhile isSpace (rev s) = rev s"
    using assms by (intro keep) simp
  ultimately show ?thesis
    by (simp add: trim_def)
qed

lemma parse_link_trailing_slash:
  assumes "\<forall>c\<in>set link. \<not> isSep c" and "link \<noteq> []" and "last link \<noteq> CHR ''/''"
  shows "parse_link (link @ ''/'') = parse_link link"
proof -
  have ns: "\<forall>c\<in>set link. \<not> isSpace c"
    using assms(1) by (simp add: isSep_def)
  have "\<not> isSpace (CHR ''/'')" by (simp add: isSpace_def)
  with ns have "\<forall>c\<in>set (link @ ''/''). \<not> isSpace c" by simp
  then have "trim (link @ ''/'') = link @ ''/''" by (rule trim_no_space)
  moreover have "trim link = link" using ns by (rule trim_no_space)
  ultimately show ?thesis
    using assms(2,3) by (simp add: parse_link_def strip_trailing_slash_def)
qed

lemma parseGithubInput_twice:
  assumes "\<forall>c\<in>set link. \<not> isSep c" and "link \<noteq> []" and "last link \<noteq> CHR ''/''"
    and "sep \<noteq> []" and "\<forall>c\<in>set sep. isSep c" and "parse_link link = Some r"
  shows "parseGithubInput (link @ sep @ link @ ''/'') = [r]"
proof -
  have "\<not> isSep (CHR ''/'')" by (simp add: isSep_def isSpace_def)
  then have "\<forall>c\<in>set (link @ ''/''). \<not> isSep c" using assms(1) by simp
  then have "split_sep (link @ sep @ (link @ ''/'')) = [link, link @ ''/'']"
    using assms by (intro split_sep_two) simp_all
  moreover have "parse_link (link @ ''/'') = Some r"
    using parse_link_trailing_slash [OF assms(1,2,3)] assms(6) by simp
  ultimately show ?thesis
    using assms(2,6) by (simp add: parseGithubInput_def map_filter_def)
qed

lemma parseGithubInput_malformed:
  "parseGithubInput ''not a url'' = []" "parseGithubInput ''///'' = []"
  by code_simp+

lemma parseGithubInput_scenario: "parseGithubInput ''https://github.com/foo/bar, github.com/foo/bar/'' =
     [\<lparr>ref_owner = ''foo'', ref_repo = ''bar'', ref_url = ''https://github.com/foo/bar''\<rparr>]"
  by code_simp


text \<open>
  C7. For every input string: no two elements of the output have the same owner and repo;
  every element's url is \<^verbatim>\<open>https://github.com/\<close>, its owner, a slash and its repo,
  its owner has 1 to 39 characters of the owner class and its repo at least one character
  of the repo class, and the element is the match of a non-empty token of the input, so a
  token that the pattern does not match yields no element; the inputs \<^verbatim>\<open>not a url\<close>
  and \<^verbatim>\<open>///\<close> yield nothing; and a link that matches, given once bare and once with a
  slash appended, the two separated by commas or white space, yields exactly the one
  element of the link.
\<close>

theorem parseGithubInput_unique_canonical:
  "distinct (map (\<lambda>r. (ref_owner r, ref_repo r)) (parseGithubInput input))
   \<and> (\<forall>r\<in>set (parseGithubInput input).
         valid_ref r \<and> (\<exists>link\<in>set (split_sep input). link \<noteq> [] \<and> parse_link link = Some r))
   \<and> parseGithubInput ''not a url'' = []
   \<and> parseGithubInput ''///'' = []
   \<and> ((\<forall>c\<in>set link. \<not> isSep c) \<and> link \<noteq> [] \<and> last link \<noteq> CHR ''/'' \<and>
       sep \<noteq> [] \<and> (\<forall>c\<in>set sep. isSep c) \<and> parse_link link = Some r
       \<longrightarrow> parseGithubInput (link @ sep @ link @ ''/'') = [r])"
proof -
  let ?out = "parseGithubInput input"
  note sound = parseGithubInput_sound [of input]
  have valid: "valid_ref r" if "r \<in> set ?out" for r
    using sound that parse_link_valid by blast
  have "distinct ?out" and inj: "inj_on ref_url (set ?out)"
    using sound by (simp_all add: distinct_map)
  moreover have "inj_on (\<lambda>r. (ref_owner r, ref_repo r)) (set ?out)"
  proof (rule inj_onI)
    fix x y
    assume x: "x \<in> set ?out" and y: "y \<in> set ?out"
      and eq: "(ref_owner x, ref_repo x) = (ref_owner y, ref_repo y)"
    have "ref_url x = ref_url y"
      using valid [OF x] valid [OF y] eq by (simp add: valid_ref_def)
    with inj show "x = y" using x y by (rule inj_onD)
  qed
  ultimately have a: "distinct (map (\<lambda>r. (ref_owner r, ref_repo r)) ?out)"
    by (simp add: distinct_map)
  have b: "\<forall>r\<in>set ?out.
         valid_ref r \<and> (\<exists>link\<in>set (split_sep input). link \<noteq> [] \<and> parse_link link = Some r)"
    using sound valid by blast
  have c: "parseGithubInput (link @ sep @ link @ ''/'') = [r]"
    if "(\<forall>c\<in>set link. \<not> isSep c) \<and> link \<noteq> [] \<and> last link \<noteq> CHR ''/'' \<and>
        sep \<noteq> [] \<and> (\<forall>c\<in>set sep. isSep c) \<and> parse_link link = Some r"
    using that by (intro parseGithubInput_twice) simp_all
  from a b c parseGithubInput_malformed show ?thesis
    by blast
qed

lemma foo_bar_link:
  "parse_link ''https://github.com/foo/bar'' =
     Some \<lparr>ref_owner = ''foo'', ref_repo = ''bar'', ref_url = ''https://github.com/foo/bar''\<rparr>"
  by code_simp

lemma foo_bar_link_chars: "\<forall>c\<in>set ''https://github.com/foo/bar''. \<not> isSep c"
  by code_simp

lemma comma_space_seps: "\<forall>c\<in>set '', ''. isSep c"
  by code_simp

theorem parseGithubInput_unique_canonical_witness:
  "parseGithubInput ''https://github.com/foo/bar, https://github.com/foo/bar/'' =
     [\<lparr>ref_owner = ''foo'', ref_repo = ''bar'', ref_url = ''https://github.com/foo/bar''\<rparr>]
   \<and> distinct (map (\<lambda>r. (ref_owner r, ref_repo r))
        (parseGithubInput ''https://github.com/foo/bar, github.com/foo/bar/''))
   \<and> parseGithubInput ''https://github.com/foo/bar, github.com/foo/bar/'' =
     [\<lparr>ref_owner = ''foo'', ref_repo = ''bar'', ref_url = ''https://github.com/foo/bar''\<rparr>]"
proof -
  have hyp: "(\<forall>c\<in>set ''https://github.com/foo/bar''. \<not> isSep c) \<and>
       ''https://github.com/foo/bar'' \<noteq> [] \<and> last ''https://github.com/foo/bar'' \<noteq> CHR ''/'' \<and>
       '', '' \<noteq> [] \<and> (\<forall>c\<in>set '', ''. isSep c) \<and>
       parse_link ''https://github.com/foo/bar'' =
         Some \<lparr>ref_owner = ''foo'', ref_repo = ''bar'', ref_url = ''https://github.com/foo/bar''\<rparr>"
    using foo_bar_link foo_bar_link_chars comma_space_seps by simp
  have scenario: "parseGithubInput ''https://github.com/foo/bar, github.com/foo/bar/'' =
     [\<lparr>ref_owner = ''foo'', ref_repo = ''bar'', ref_url = ''https://github.com/foo/bar''\<rparr>]"
    by code_simp
  from hyp scenario
    parseGithubInput_unique_canonical
      [where input = "''https://github.com/foo/bar, github.com/foo/bar/''"
         and link = "''https://github.com/foo/bar''" and sep = "'', ''"
         and r = "\<lparr>ref_owner = ''foo'', ref_repo = ''bar'',
                    ref_url = ''https://github.com/foo/bar''\<rparr>"]
  show ?thesis
    by simp
qed


section \<open>The stages of the primary pipeline\<close>

lemma appends_refl: "appends P s s"
  by (simp add: appends_def)

lemma appends_trans: "appends P s s1 \<Longrightarrow> appends P s1 s2 \<Longrightarrow> appends P s s2"
  by (auto simp: appends_def)

lemma appends_mono:
  assumes "appends P s s'" and "\<And>e. P e \<Longrightarrow> Q e"
  shows "appends Q s s'"
  using assms by (auto simp: appends_def list_all_iff)

lemma appends_wait: "P (Wait n) \<Longrightarrow> appends P s (wait n s)"
  by (simp add: appends_def wait_def)

lemma appends_fetched: "P (Fetch u) \<Longrightarrow> appends P s (fetched u s)"
  by (simp add: appends_def fetched_def)

lemma retry_loop_appends:
  assumes "retry_loop env p R D i s = (res, s')"
  shows "appends (\<lambda>e. e = Generate p \<or> (\<exists>n. e = Wait n)) s s'"
  using assms
proof (induction "nat (R - int i)" arbitrary: i s)
  case 0
  then have "\<not> int i < R" by simp
  with "0.prems" have "s' = s"
    by (subst (asm) retry_loop.simps) simp
  then show ?case by (simp add: appends_refl)
next
  case (Suc m)
  let ?P = "\<lambda>e. e = Generate p \<or> (\<exists>n. e = Wait n)"
  let ?s1 = "s\<lparr>gen_calls := Suc (gen_calls s), trace := trace s @ [Generate p]\<rparr>"
  have step: "appends ?P s ?s1"
    by (simp add: appends_def)
  show ?case
  proof (cases "generateContent env (gen_calls s) p")
    case (Inr result)
    with Suc.prems Suc.hyps(2) have "s' = ?s1"
      by (subst (asm) retry_loop.simps) (auto simp: invoke_def split: if_splits)
    with step show ?thesis by simp
  next
    case (Inl error)
    show ?thesis
    proof (cases "isQuotaError error \<and> int i < R - 1")
      case False
      with Inl Suc.prems Suc.hyps(2) have "s' = ?s1"
        by (subst (asm) retry_loop.simps) (auto simp: invoke_def split: if_splits)
      with step show ?thesis by simp
    next
      case True
      let ?s2 = "wait (D * 2 ^ i) ?s1"
      from True Inl Suc.prems
      have run: "retry_loop env p R D (Suc i) ?s2 = (res, s')"
        by (subst (asm) retry_loop.simps) (simp add: invoke_def)
      have "m = nat (R - int (Suc i))" using Suc.hyps(2) by simp
      then have "appends ?P ?s2 s'"
        using run by (rule Suc.hyps(1))
      moreover have "appends ?P ?s1 ?s2"
        by (rule appends_wait) simp
      ultimately show ?thesis
        using step by (blast intro: appends_trans)
    qed
  qed
qed

lemma generateContentWithRetry_appends:
  assumes "generateContentWithRetry env p R D s = (res, s')"
    and "responseSchema p = Some sch"
  shows "appends (model_event sch) s s'"
proof -
  have "appends (\<lambda>e. e = Generate p \<or> (\<exists>n. e = Wait n)) s s'"
    using assms(1) unfolding generateContentWithRetry_def by (rule retry_loop_appends)
  then show ?thesis
  proof (rule appends_mono)
    fix e
    assume "e = Generate p \<or> (\<exists>n. e = Wait n)"
    then show "model_event sch e"
      using assms(2) by (auto simp: model_event_def)
  qed
qed

lemma generateContentWithRetry_first_call:
  assumes "generateContentWithRetry env p R D s = (res, s')" and "1 \<le> R"
  shows "\<exists>t. trace s' = trace s @ Generate p # t"
proof -
  let ?s1 = "s\<lparr>gen_calls := Suc (gen_calls s), trace := trace s @ [Generate p]\<rparr>"
  have "s' = ?s1 \<or> (\<exists>s2. appends (\<lambda>e. e = Generate p \<or> (\<exists>n. e = Wait n)) s2 s'
                       \<and> trace s2 = trace ?s1 @ [Wait (D * 2 ^ 0)])"
    using assms retry_loop_appends [of env p R D "Suc 0" "wait (D * 2 ^ 0) ?s1" res s']
    unfolding generateContentWithRetry_def
    by (subst (asm) retry_loop.simps)
       (auto simp: invoke_def wait_def split: sum.splits if_splits)
  then show ?thesis
    by (auto simp: appends_def)
qed

lemma fetchGithubFileContent_appends:
  assumes "fetchGithubFileContent env owner repo path s = (c, s')"
  shows "appends github_event s s'"
proof -
  have "s' = fetched (repo_api owner repo @ ''/contents/'' @ path) s"
    using assms
    by (auto simp: fetchGithubFileContent_def Let_def split: http.splits option.splits if_splits)
  then show ?thesis
    by (simp add: appends_fetched github_event_def)
qed

lemma bundle_files_appends:
  assumes "bundle_files env owner repo files b s = (b', s')"
  shows "appends github_event s s'"
  using assms
proof (induction files arbitrary: b s)
  case Nil
  then show ?case by (simp add: appends_refl)
next
  case (Cons fl rest)
  obtain c s1 where f: "fetchGithubFileContent env owner repo (entry_path fl) s = (c, s1)"
    by (cases "fetchGithubFileContent env owner repo (entry_path fl) s")
  then have a: "appends github_event s s1"
    by (rule fetchGithubFileContent_appends)
  have "\<exists>b1. bundle_files env owner repo rest b1 s1 = (b', s')"
    using Cons.prems f by (auto split: option.splits if_splits)
  then have "appends github_event s1 s'"
    using Cons.IH by blast
  with a show ?case by (rule appends_trans)
qed

lemma fetchGithubRepoData_appends:
  assumes "fetchGithubRepoData env owner repo s = (d, s')"
  shows "appends github_event s s'"
proof -
  let ?s1 = "fetched (repo_api owner repo) s"
  let ?s2 = "fetched (repo_api owner repo @ ''/languages'') ?s1"
  let ?s3 = "fetched (repo_api owner repo @ ''/contents'') ?s2"
  have f: "github_event (Fetch u)" for u by (simp add: github_event_def)
  have a1: "appends github_event s ?s1" by (rule appends_fetched) (rule f)
  have "appends github_event ?s1 ?s2" by (rule appends_fetched) (rule f)
  with a1 have a2: "appends github_event s ?s2" by (rule appends_trans)
  have "appends github_event ?s2 ?s3" by (rule appends_fetched) (rule f)
  with a2 have a3: "appends github_event s ?s3" by (rule appends_trans)
  have "s' = ?s1 \<or> s' = ?s2 \<or> s' = ?s3 \<or>
        (\<exists>files b b'. bundle_files env owner repo files b ?s3 = (b', s'))"
    using assms
    by (auto simp: fetchGithubRepoData_def Let_def split: http.splits option.splits prod.splits)
  then show ?thesis
    using a1 a2 a3 bundle_files_appends by (blast intro: appends_trans)
qed

lemma fetch_repos_appends:
  assumes "fetch_repos env rs s = (ds, s')"
  shows "appends github_event s s'"
  using assms
proof (induction rs arbitrary: s ds)
  case Nil
  then show ?case by (simp add: appends_refl)
next
  case (Cons r rs)
  obtain d s1 where f: "fetchGithubRepoData env (ref_owner r) (ref_repo r) s = (d, s1)"
    by (cases "fetchGithubRepoData env (ref_owner r) (ref_repo r) s")
  obtain ds1 s2 where g: "fetch_repos env rs s1 = (ds1, s2)"
    by (cases "fetch_repos env rs s1")
  have "s' = s2" using Cons.prems f g by simp
  with g have "fetch_repos env rs s1 = (ds1, s')" by simp
  then have "appends github_event s1 s'" by (rule Cons.IH)
  moreover have "appends github_event s s1" using f by (rule fetchGithubRepoData_appends)
  ultimately show ?case by (blast intro: appends_trans)
qed

lemma model_event_github:
  "model_event GITHUB_DEEP_ANALYSIS_SCHEMA e \<Longrightarrow> github_event e"
  by (cases e) (simp_all add: model_event_def github_event_def)

lemma analyze_repos_appends:
  assumes "analyze_repos env ds results s = (ps, s')"
  shows "appends github_event s s'"
  using assms
proof (induction ds arbitrary: results s)
  case Nil
  then show ?case by (simp add: appends_refl)
next
  case (Cons repoData rest)
  obtain r s1 where g: "generateContentWithRetry env (repo_params repoData) 3 2000 s = (r, s1)"
    by (cases "generateContentWithRetry env (repo_params repoData) 3 2000 s")
  have "appends (model_event GITHUB_DEEP_ANALYSIS_SCHEMA) s s1"
    using g by (rule generateContentWithRetry_appends) (simp add: repo_params_def)
  then have a: "appends github_event s s1"
    by (rule appends_mono) (rule model_event_github)
  have w: "appends github_event s1 (wait 2000 s1)"
    by (rule appends_wait) (simp add: github_event_def)
  have "\<exists>results1. analyze_repos env rest results1 s1 = (ps, s')
                 \<or> analyze_repos env rest results1 (wait 2000 s1) = (ps, s')"
    using Cons.prems g
    by (auto split: sum.splits option.splits if_splits)
  then have "appends github_event s1 s'"
    using Cons.IH w by (blast intro: appends_trans)
  with a show ?case by (rule appends_trans)
qed

lemma analyzeGithubReposWithAPI_appends:
  assumes "analyzeGithubReposWithAPI env githubLinks s = (ps, s')"
  shows "appends github_event s s'"
proof -
  have "s' = s \<or> (\<exists>rs ds s1. fetch_repos env rs s = (ds, s1) \<and>
                    (s' = s1 \<or> analyze_repos env ds [] s1 = (ps, s')))"
    using assms
    by (auto simp: analyzeGithubReposWithAPI_def Let_def split: if_splits prod.splits)
  then show ?thesis
    using fetch_repos_appends analyze_repos_appends
    by (blast intro: appends_trans appends_refl)
qed

lemma analyzeResumeHighlights_appends:
  assumes "analyzeResumeHighlights env resume s = (h, s')"
  shows "appends (model_event RESUME_HIGHLIGHTS_SCHEMA) s s'"
proof -
  have "s' = s \<or> (\<exists>part r. generateContentWithRetry env (resume_params part) 3 2000 s = (r, s'))"
    using assms
    by (auto simp: analyzeResumeHighlights_def
             split: option.splits sum.splits prod.splits if_splits)
  then show ?thesis
  proof (elim disjE exE)
    assume "s' = s"
    then show ?thesis by (simp add: appends_refl)
  next
    fix part r
    assume "generateContentWithRetry env (resume_params part) 3 2000 s = (r, s')"
    then show ?thesis
      by (rule generateContentWithRetry_appends) (simp add: resume_params_def)
  qed
qed

text \<open>
  C2. In every run of \<^verbatim>\<open>analyzeProfile\<close> the trace grows in three consecutive
  segments. The first holds the events of the per-artifact batch (its fetches, its model
  calls, its pacing delays) and ends when the batch has returned its projects. The second
  holds the events of the resume segment analyzer, started in the state the batch left
  (after a delay of 1500 when there are projects). The third holds the events of the main
  stage, which are delays and calls with the analysis schema. Whatever the two side
  channels did, and whether they failed or not, once the resume is read the third segment
  begins with the delay of 2000 and the call whose prompt is built from the projects the
  batch returned.
\<close>

theorem analyzeProfile_stage_order:
  assumes "analyzeProfile env resume jdText githubLinks s = (res, s')"
  shows "\<exists>githubProjects s1 highlights s2.
      analyzeGithubReposWithAPI env githubLinks s = (githubProjects, s1)
    \<and> appends github_event s s1
    \<and> analyzeResumeHighlights env resume
          (if 0 < length githubProjects then wait 1500 s1 else s1) = (highlights, s2)
    \<and> appends (model_event RESUME_HIGHLIGHTS_SCHEMA) s1 s2
    \<and> appends (model_event ANALYSIS_SCHEMA) s2 s'
    \<and> (\<forall>resumeParts. resume_parts resume = Inr resumeParts \<longrightarrow>
          (\<exists>t. trace s' = trace s2 @ Wait 2000
                  # Generate (main_params env resumeParts jdText githubProjects) # t))"
proof -
  obtain gp s1 where a: "analyzeGithubReposWithAPI env githubLinks s = (gp, s1)"
    by (cases "analyzeGithubReposWithAPI env githubLinks s")
  let ?s1 = "if 0 < length gp then wait 1500 s1 else s1"
  obtain h s2 where b: "analyzeResumeHighlights env resume ?s1 = (h, s2)"
    by (cases "analyzeResumeHighlights env resume ?s1")
  let ?rh = "case h of Inl e \<Rightarrow> None | Inr x \<Rightarrow> x"
  have side: "side_channels env resume githubLinks s = (gp, ?rh, s2)"
    using a b by (simp add: side_channels_def split: sum.splits)
  have A: "appends github_event s s1"
    using a by (rule analyzeGithubReposWithAPI_appends)
  have "appends (model_event RESUME_HIGHLIGHTS_SCHEMA) s1 ?s1"
    by (simp add: appends_refl appends_wait model_event_def)
  moreover have "appends (model_event RESUME_HIGHLIGHTS_SCHEMA) ?s1 s2"
    using b by (rule analyzeResumeHighlights_appends)
  ultimately have B: "appends (model_event RESUME_HIGHLIGHTS_SCHEMA) s1 s2"
    by (rule appends_trans)
  have C: "appends (model_event ANALYSIS_SCHEMA) s2 s' \<and>
      (\<forall>resumeParts. resume_parts resume = Inr resumeParts \<longrightarrow>
          (\<exists>t. trace s' = trace s2 @ Wait 2000
                  # Generate (main_params env resumeParts jdText gp) # t))"
  proof (cases "resume_parts resume")
    case (Inl e)
    with assms side have "s' = s2"
      by (simp add: analyzeProfile_def)
    with Inl show ?thesis by (simp add: appends_refl)
  next
    case (Inr parts)
    let ?p = "main_params env parts jdText gp"
    obtain r s3 where g: "generateContentWithRetry env ?p 4 3000 (wait 2000 s2) = (r, s3)"
      by (cases "generateContentWithRetry env ?p 4 3000 (wait 2000 s2)")
    have s3: "s' = s3"
      using assms side Inr g
      by (auto simp: analyzeProfile_def split: sum.splits option.splits if_splits)
    have "appends (model_event ANALYSIS_SCHEMA) s2 (wait 2000 s2)"
      by (rule appends_wait) (simp add: model_event_def)
    moreover have "appends (model_event ANALYSIS_SCHEMA) (wait 2000 s2) s3"
      using g by (rule generateContentWithRetry_appends) (simp add: main_params_def)
    ultimately have "appends (model_event ANALYSIS_SCHEMA) s2 s3"
      by (rule appends_trans)
    moreover have "\<exists>t. trace s3 = trace s2 @ Wait 2000 # Generate ?p # t"
      using generateContentWithRetry_first_call [OF g] by (simp add: wait_def)
    ultimately show ?thesis
      using Inr s3 by simp
  qed
  from a A b B C show ?thesis
    by blast
qed

lemma foo_bar_pipeline_run:
  "analyzeProfile empty_object_env (Some resume_pdf) ''Data Engineer'' ''foo/bar'' init_state =
     (Inr \<lparr>parsed = JObj [],
           github_projects =
             Some [\<lparr>name = None, summary = ''undefined: undefined'', tech_stack = None,
                    complexity_rating = None, resume_bullets = None,
                    improvement_suggestions = None\<rparr>],
           resume_highlights = Some (JObj [])\<rparr>,
      \<lparr>gen_calls = 3, fetches = 3,
       trace =
         [Fetch ''https://api.github.com/repos/foo/bar'',
          Fetch ''https://api.github.com/repos/foo/bar/languages'',
          Fetch ''https://api.github.com/repos/foo/bar/contents'',
          Generate (repo_params \<lparr>repo_name = ''bar'', repo_url = ''https://github.com/foo/bar'',
                       language_summary =
                         ''HTML 1%, CSS 1%, Shell 1%, Makefile 1%, Dockerfile 1%'',
                       files_bundle = []\<rparr>),
          Wait 2000, Wait 1500,
          Generate (resume_params (InlineData (Some ''JVBERi0='') ''application/pdf'')),
          Wait 2000,
          Generate
            \<lparr>model = ''gemini-3-pro-preview'',
             content_parts =
               [InlineData (Some ''JVBERi0='') ''application/pdf'',
                Text (MainPrompt ''Data Engineer''
                        (''REPO: undefined'' @ [CHR 0x0A] @ ''SUMMARY: undefined: undefined''))],
             responseSchema = Some ANALYSIS_SCHEMA, googleSearch = True,
             audioModality = False\<rparr>]\<rparr>)"
  by code_simp

theorem analyzeProfile_stage_order_witness:
  "\<exists>s1 s2.
      appends github_event init_state s1
    \<and> appends (model_event RESUME_HIGHLIGHTS_SCHEMA) s1 s2
    \<and> appends (model_event ANALYSIS_SCHEMA) s2
        (snd (analyzeProfile empty_object_env (Some resume_pdf) ''Data Engineer'' ''foo/bar''
                init_state))
    \<and> gen_calls (snd (analyzeProfile empty_object_env (Some resume_pdf) ''Data Engineer''
                        ''foo/bar'' init_state)) = 3"
proof -
  note run = foo_bar_pipeline_run
  from analyzeProfile_stage_order [OF run] show ?thesis
    unfolding run by (simp del: One_nat_def) blast
qed


section \<open>The capstone stage\<close>

lemma analyzeProfile_main_stage:
  assumes "side_channels env resume githubLinks s = (githubProjects, resumeHighlights, s2)"
    and "resume_parts resume = Inr resumeParts"
    and "generateContentWithRetry env (main_params env resumeParts jdText githubProjects)
           4 3000 (wait 2000 s2) = (r, s3)"
  shows "analyzeProfile env resume jdText githubLinks s =
           (case r of
              Inl e \<Rightarrow> Inl e
            | Inr mainResponse \<Rightarrow>
                (case resp_text mainResponse of
                   None \<Rightarrow> Inl (Error ''No response from AI'')
                 | Some t \<Rightarrow>
                     if t = [] then Inl (Error ''No response from AI'')
                     else (case JSON_parse env (cleanJson t) of
                             None \<Rightarrow> Inl syntax_error
                           | Some mainResult \<Rightarrow>
                               overlay mainResult githubProjects resumeHighlights)), s3)"
  using assms
  by (simp add: analyzeProfile_def split: sum.splits option.splits)

text \<open>
  C4. Let the two side channels have run and the resume be read, and let \<open>p\<close> be the
  parameters of the primary call. If the first call of the invoker with \<open>p\<close> throws an
  error that is not a quota error, \<^verbatim>\<open>analyzeProfile\<close> throws that same error after this
  one call, although its retry budget is 4. Whenever the retry wrapper throws,
  \<^verbatim>\<open>analyzeProfile\<close> throws the same error. If the response has no text or an empty
  one, it throws \<^verbatim>\<open>No response from AI\<close>. If \<^verbatim>\<open>JSON.parse\<close> rejects the text, with
  its code fences stripped, it throws. In all these runs its result is an error: no
  result object is returned.
\<close>

theorem analyzeProfile_all_or_nothing:
  assumes "side_channels env resume githubLinks s = (githubProjects, resumeHighlights, s2)"
    and "resume_parts resume = Inr resumeParts"
    and "p = main_params env resumeParts jdText githubProjects"
  shows
    "(generateContent env (gen_calls s2) p = Inl e \<and> \<not> isQuotaError e \<longrightarrow>
        analyzeProfile env resume jdText githubLinks s =
          (Inl e, s2\<lparr>gen_calls := gen_calls s2 + 1,
                     trace := trace s2 @ [Wait 2000, Generate p]\<rparr>))
   \<and> (generateContentWithRetry env p 4 3000 (wait 2000 s2) = (Inl e, s3) \<longrightarrow>
        analyzeProfile env resume jdText githubLinks s = (Inl e, s3))
   \<and> (generateContentWithRetry env p 4 3000 (wait 2000 s2) = (Inr response, s3) \<and>
      (resp_text response = None \<or> resp_text response = Some []) \<longrightarrow>
        analyzeProfile env resume jdText githubLinks s =
          (Inl (Error ''No response from AI''), s3))
   \<and> (generateContentWithRetry env p 4 3000 (wait 2000 s2) = (Inr response, s3) \<and>
      resp_text response = Some t \<and> JSON_parse env (cleanJson t) = None \<longrightarrow>
        (\<exists>e'. analyzeProfile env resume jdText githubLinks s = (Inl e', s3)))"
proof (intro conjI impI)
  assume h: "generateContent env (gen_calls s2) p = Inl e \<and> \<not> isQuotaError e"
  have "generateContentWithRetry env p 4 3000 (wait 2000 s2) =
          (Inl e, (wait 2000 s2)\<lparr>gen_calls := gen_calls (wait 2000 s2) + 1,
                                 trace := trace (wait 2000 s2) @ [Generate p]\<rparr>)"
    unfolding generateContentWithRetry_def
    by (rule retry_loop_other_error) (use h in \<open>simp_all add: wait_def\<close>)
  then have "generateContentWithRetry env p 4 3000 (wait 2000 s2) =
          (Inl e, s2\<lparr>gen_calls := gen_calls s2 + 1,
                     trace := trace s2 @ [Wait 2000, Generate p]\<rparr>)"
    by (simp add: wait_def)
  then show "analyzeProfile env resume jdText githubLinks s =
          (Inl e, s2\<lparr>gen_calls := gen_calls s2 + 1,
                     trace := trace s2 @ [Wait 2000, Generate p]\<rparr>)"
    using analyzeProfile_main_stage [OF assms(1,2)] assms(3) by simp
next
  assume "generateContentWithRetry env p 4 3000 (wait 2000 s2) = (Inl e, s3)"
  then show "analyzeProfile env resume jdText githubLinks s = (Inl e, s3)"
    using analyzeProfile_main_stage [OF assms(1,2)] assms(3) by simp
next
  assume "generateContentWithRetry env p 4 3000 (wait 2000 s2) = (Inr response, s3) \<and>
      (resp_text response = None \<or> resp_text response = Some [])"
  then show "analyzeProfile env resume jdText githubLinks s =
          (Inl (Error ''No response from AI''), s3)"
    using analyzeProfile_main_stage [OF assms(1,2)] assms(3) by auto
next
  assume "generateContentWithRetry env p 4 3000 (wait 2000 s2) = (Inr response, s3) \<and>
      resp_text response = Some t \<and> JSON_parse env (cleanJson t) = None"
  then show "\<exists>e'. analyzeProfile env resume jdText githubLinks s = (Inl e', s3)"
    using analyzeProfile_main_stage [OF assms(1,2)] assms(3) by auto
qed


lemma resume_pdf_parts:
  "resume_parts (Some resume_pdf) = Inr [InlineData (Some ''JVBERi0='') ''application/pdf'']"
  by code_simp

lemma offline_side_channels:
  "side_channels offline_env (Some resume_pdf) [] init_state =
     ([], None,
      \<lparr>gen_calls = 1, fetches = 0,
       trace = [Generate (resume_params (InlineData (Some ''JVBERi0='') ''application/pdf''))]\<rparr>)"
  by code_simp

lemma silent_side_channels:
  "side_channels silent_env (Some resume_pdf) [] init_state =
     ([], None,
      \<lparr>gen_calls = 1, fetches = 0,
       trace = [Generate (resume_params (InlineData (Some ''JVBERi0='') ''application/pdf''))]\<rparr>)"
  by code_simp

lemma prose_side_channels:
  "side_channels prose_env (Some resume_pdf) [] init_state =
     ([], None,
      \<lparr>gen_calls = 1, fetches = 0,
       trace = [Generate (resume_params (InlineData (Some ''JVBERi0='') ''application/pdf''))]\<rparr>)"
  by code_simp

theorem analyzeProfile_all_or_nothing_witness:
  "analyzeProfile offline_env (Some resume_pdf) [] [] init_state =
     (Inl (Error ''fetch failed''),
      \<lparr>gen_calls = 2, fetches = 0,
       trace = [Generate (resume_params (InlineData (Some ''JVBERi0='') ''application/pdf'')),
                Wait 2000,
                Generate (main_params offline_env
                            [InlineData (Some ''JVBERi0='') ''application/pdf''] [] [])]\<rparr>)
   \<and> fst (analyzeProfile silent_env (Some resume_pdf) [] [] init_state) =
       Inl (Error ''No response from AI'')
   \<and> (\<exists>e'. fst (analyzeProfile prose_env (Some resume_pdf) [] [] init_state) = Inl e')"
proof -
  let ?parts = "[InlineData (Some ''JVBERi0='') ''application/pdf'']"
  let ?s2 = "\<lparr>gen_calls = 1, fetches = 0,
       trace = [Generate (resume_params (InlineData (Some ''JVBERi0='') ''application/pdf''))]\<rparr>"
  have a: "generateContent offline_env (gen_calls ?s2) (main_params offline_env ?parts [] [])
             = Inl (Error ''fetch failed'') \<and> \<not> isQuotaError (Error ''fetch failed'')"
    by (simp add: offline_env_def fetch_failed_is_not_quota)
  have b: "generateContentWithRetry silent_env (main_params silent_env ?parts [] []) 4 3000
             (wait 2000 ?s2) =
           (Inr \<lparr>resp_text = None, audioData = None\<rparr>,
            \<lparr>gen_calls = 2, fetches = 0,
             trace = [Generate (resume_params (InlineData (Some ''JVBERi0='') ''application/pdf'')),
                      Wait 2000, Generate (main_params silent_env ?parts [] [])]\<rparr>)
         \<and> (resp_text \<lparr>resp_text = None, audioData = None\<rparr> = None
            \<or> resp_text \<lparr>resp_text = None, audioData = None\<rparr> = Some [])"
    by code_simp
  have c: "generateContentWithRetry prose_env (main_params prose_env ?parts [] []) 4 3000
             (wait 2000 ?s2) =
           (Inr \<lparr>resp_text = Some ''Sorry, I cannot help with that.'', audioData = None\<rparr>,
            \<lparr>gen_calls = 2, fetches = 0,
             trace = [Generate (resume_params (InlineData (Some ''JVBERi0='') ''application/pdf'')),
                      Wait 2000, Generate (main_params prose_env ?parts [] [])]\<rparr>)
         \<and> resp_text \<lparr>resp_text = Some ''Sorry, I cannot help with that.'', audioData = None\<rparr>
             = Some ''Sorry, I cannot help with that.''
         \<and> JSON_parse prose_env (cleanJson ''Sorry, I cannot help with that.'') = None"
    by code_simp
  from a analyzeProfile_all_or_nothing
         [OF offline_side_channels resume_pdf_parts refl,
          where jdText = "[]" and e = "Error ''fetch failed''"]
  have A: "analyzeProfile offline_env (Some resume_pdf) [] [] init_state =
     (Inl (Error ''fetch failed''),
      \<lparr>gen_calls = 2, fetches = 0,
       trace = [Generate (resume_params (InlineData (Some ''JVBERi0='') ''application/pdf'')),
                Wait 2000, Generate (main_params offline_env ?parts [] [])]\<rparr>)"
    by simp
  from b analyzeProfile_all_or_nothing
         [OF silent_side_channels resume_pdf_parts refl, where jdText = "[]"]
  have B: "fst (analyzeProfile silent_env (Some resume_pdf) [] [] init_state) =
       Inl (Error ''No response from AI'')"
    by (metis fst_conv)
  from c analyzeProfile_all_or_nothing
         [OF prose_side_channels resume_pdf_parts refl, where jdText = "[]"]
  have C: "\<exists>e'. fst (analyzeProfile prose_env (Some resume_pdf) [] [] init_state) = Inl e'"
    by (metis fst_conv)
  from A B C show ?thesis by blast
qed

text \<open>
  C1, as the code has it. \<^verbatim>\<open>analyzeProfile\<close> makes no check of the fields that the
  schema marks required. Whenever the primary call returns a non-empty text whose
  fence-stripped form \<^verbatim>\<open>JSON.parse\<close> reads as an object, it returns that object,
  whichever fields it has, with \<^verbatim>\<open>github_projects\<close> assigned when the batch produced
  projects and \<^verbatim>\<open>resume_highlights\<close> assigned when the analyzer produced a value. And
  every result it returns is the value \<^verbatim>\<open>JSON.parse\<close> read from the fence-stripped,
  non-empty text of the primary response.
\<close>

theorem analyzeProfile_returns_parsed_value:
  assumes "side_channels env resume githubLinks s = (githubProjects, resumeHighlights, s2)"
    and "resume_parts resume = Inr resumeParts"
    and "p = main_params env resumeParts jdText githubProjects"
    and "generateContentWithRetry env p 4 3000 (wait 2000 s2) = (r, s3)"
  shows
    "(\<forall>response t kvs.
        r = Inr response \<and> resp_text response = Some t \<and> t \<noteq> [] \<and>
        JSON_parse env (cleanJson t) = Some (JObj kvs) \<longrightarrow>
          analyzeProfile env resume jdText githubLinks s =
            (Inr \<lparr>parsed = JObj kvs,
                  github_projects =
                    (if 0 < length githubProjects then Some githubProjects else None),
                  resume_highlights =
                    (if truthy resumeHighlights then resumeHighlights else None)\<rparr>, s3))
   \<and> (\<forall>res s'.
        analyzeProfile env resume jdText githubLinks s = (Inr res, s') \<longrightarrow>
          (\<exists>response t. r = Inr response \<and> resp_text response = Some t \<and> t \<noteq> [] \<and>
             JSON_parse env (cleanJson t) = Some (parsed res)))"
proof -
  note main = analyzeProfile_main_stage [OF assms(1,2) assms(4) [unfolded assms(3)]]
  show ?thesis
  proof (intro conjI allI impI)
    fix response t kvs
    assume "r = Inr response \<and> resp_text response = Some t \<and> t \<noteq> [] \<and>
        JSON_parse env (cleanJson t) = Some (JObj kvs)"
    then show "analyzeProfile env resume jdText githubLinks s =
            (Inr \<lparr>parsed = JObj kvs,
                  github_projects =
                    (if 0 < length githubProjects then Some githubProjects else None),
                  resume_highlights =
                    (if truthy resumeHighlights then resumeHighlights else None)\<rparr>, s3)"
      using main by (simp add: overlay_def assignable_def)
  next
    fix res s'
    assume "analyzeProfile env resume jdText githubLinks s = (Inr res, s')"
    then show "\<exists>response t. r = Inr response \<and> resp_text response = Some t \<and> t \<noteq> [] \<and>
             JSON_parse env (cleanJson t) = Some (parsed res)"
      using main
      by (auto simp: overlay_def split: sum.splits option.splits if_splits)
  qed
qed

lemma empty_object_side_channels:
  "side_channels empty_object_env (Some resume_pdf) [] init_state =
     ([], Some (JObj []),
      \<lparr>gen_calls = 1, fetches = 0,
       trace = [Generate (resume_params (InlineData (Some ''JVBERi0='') ''application/pdf''))]\<rparr>)"
  by code_simp

lemma empty_object_main_call:
  "generateContentWithRetry empty_object_env
     (main_params empty_object_env [InlineData (Some ''JVBERi0='') ''application/pdf''] [] [])
     4 3000
     (wait 2000 \<lparr>gen_calls = 1, fetches = 0,
        trace = [Generate (resume_params (InlineData (Some ''JVBERi0='') ''application/pdf''))]\<rparr>)
   = (Inr empty_object_response,
      \<lparr>gen_calls = 2, fetches = 0,
       trace = [Generate (resume_params (InlineData (Some ''JVBERi0='') ''application/pdf'')),
                Wait 2000,
                Generate (main_params empty_object_env
                            [InlineData (Some ''JVBERi0='') ''application/pdf''] [] [])]\<rparr>)"
  by code_simp

theorem analyzeProfile_returns_parsed_value_witness:
  "analyzeProfile empty_object_env (Some resume_pdf) [] [] init_state =
     (Inr \<lparr>parsed = JObj [], github_projects = None, resume_highlights = Some (JObj [])\<rparr>,
      \<lparr>gen_calls = 2, fetches = 0,
       trace = [Generate (resume_params (InlineData (Some ''JVBERi0='') ''application/pdf'')),
                Wait 2000,
                Generate (main_params empty_object_env
                            [InlineData (Some ''JVBERi0='') ''application/pdf''] [] [])]\<rparr>)"
proof -
  have resp: "resp_text empty_object_response = Some ''{}'' \<and> ''{}'' \<noteq> [] \<and>
      JSON_parse empty_object_env (cleanJson ''{}'') = Some (JObj [])"
    by code_simp
  note inst = analyzeProfile_returns_parsed_value
      [OF empty_object_side_channels resume_pdf_parts refl empty_object_main_call,
       THEN conjunct1, rule_format, of empty_object_response "''{}''" "[]"]
  from resp inst show ?thesis
    by (simp add: truthy.simps)
qed

text \<open>
  C1, as the claim has it, fails: the primary call answers \<^verbatim>\<open>{}\<close>, which lacks every
  required field, and \<^verbatim>\<open>analyzeProfile\<close> returns the empty object, with the resume
  highlights assigned to it, as its result. None of the required fields is in it.
\<close>

theorem analyzeProfile_required_fields_counterexample:
  "generateContent empty_object_env 1
     (main_params empty_object_env [InlineData (Some ''JVBERi0='') ''application/pdf''] [] [])
     = Inr \<lparr>resp_text = Some ''{}'', audioData = None\<rparr>
   \<and> analyzeProfile empty_object_env (Some resume_pdf) [] [] init_state =
     (Inr \<lparr>parsed = JObj [], github_projects = None, resume_highlights = Some (JObj [])\<rparr>,
      \<lparr>gen_calls = 2, fetches = 0,
       trace = [Generate (resume_params (InlineData (Some ''JVBERi0='') ''application/pdf'')),
                Wait 2000,
                Generate (main_params empty_object_env
                            [InlineData (Some ''JVBERi0='') ''application/pdf''] [] [])]\<rparr>)
   \<and> filter (has_field \<lparr>parsed = JObj [], github_projects = None,
                         resume_highlights = Some (JObj [])\<rparr>) analysis_required = []
   \<and> \<not> has_field \<lparr>parsed = JObj [], github_projects = None,
                    resume_highlights = Some (JObj [])\<rparr> ''overall_scores''"
  by code_simp


section \<open>The best-effort components\<close>

lemma cleanJson_empty_object: "cleanJson ''{}'' = ''{}''"
  by code_simp

text \<open>
  C9, as the code has it. The resume segment analyzer (once the resume file is converted,
  which happens before its \<^verbatim>\<open>try\<close> block), topic generation, speech synthesis and
  transcription never throw: whatever the model call and the parsing of its response do,
  they return a value, and when the model call throws, or the response has no text (for
  speech synthesis, no audio), or \<^verbatim>\<open>JSON.parse\<close> rejects it, that value is the
  fallback: \<^verbatim>\<open>null\<close>, the empty array, \<^verbatim>\<open>null\<close> and the empty string. The portfolio generator, once it has
  built the candidate profile, never throws either, and returns the fixed HTML error
  comment when the model call throws. Question generation and answer evaluation have no
  \<^verbatim>\<open>try\<close> block: when the model call throws they throw the same error, and when
  \<^verbatim>\<open>JSON.parse\<close> rejects the response they throw its error, to their caller.
\<close>

theorem best_effort_components:
  "((resume = None \<or> (\<exists>f part. resume = Some f \<and> fileToGenerativePart f = Inr part)) \<longrightarrow>
      (\<exists>v s'. analyzeResumeHighlights env resume s = (Inr v, s')))
   \<and> (\<exists>v s'. generateInterviewTopics env role s = (Inr v, s'))
   \<and> (\<exists>a s'. generateSpeech env t s = (Inr a, s'))
   \<and> (\<exists>x s'. transcribeAudio env audio mime s = (Inr x, s'))
   \<and> (candidateProfile analysisResult preferences = Inr profile \<longrightarrow>
        (\<exists>h s'. generatePortfolioHtml env analysisResult preferences s = (Inr h, s')))
   \<and> (fileToGenerativePart f = Inr part \<and>
       generateContentWithRetry env (resume_params part) 3 2000 s = (r, s1) \<and>
       ((\<exists>e. r = Inl e) \<or>
        (\<exists>response. r = Inr response \<and>
           (resp_text response = None \<or> resp_text response = Some [] \<or>
            (\<exists>x. resp_text response = Some x \<and> JSON_parse env (cleanJson x) = None)))) \<longrightarrow>
         analyzeResumeHighlights env (Some f) s = (Inr None, s1))
   \<and> (generateContentWithRetry env (topics_params role) 3 2000 s = (r, s1) \<and>
       ((\<exists>e. r = Inl e) \<or>
        (\<exists>response. r = Inr response \<and>
           JSON_parse env (cleanJson (text_or (resp_text response) ''{}'')) = None)) \<longrightarrow>
         generateInterviewTopics env role s = (Inr (JArr []), s1))
   \<and> (generateContentWithRetry env (topics_params role) 3 2000 s = (Inr response, s1) \<and>
       (resp_text response = None \<or> resp_text response = Some []) \<and>
       JSON_parse env ''{}'' = Some (JObj []) \<longrightarrow>
         generateInterviewTopics env role s = (Inr (JArr []), s1))
   \<and> (generateContentWithRetry env (speech_params t) 3 2000 s = (Inl e, s1) \<longrightarrow>
         generateSpeech env t s = (Inr None, s1))
   \<and> (generateContentWithRetry env (speech_params t) 3 2000 s = (Inr response, s1) \<and>
       (audioData response = None \<or> audioData response = Some []) \<longrightarrow>
         generateSpeech env t s = (Inr None, s1))
   \<and> (generateContentWithRetry env (transcribe_params audio mime) 3 2000 s = (Inl e, s1) \<longrightarrow>
         transcribeAudio env audio mime s = (Inr [], s1))
   \<and> (generateContentWithRetry env (transcribe_params audio mime) 3 2000 s
         = (Inr response, s1) \<and>
       (resp_text response = None \<or> resp_text response = Some []) \<longrightarrow>
         transcribeAudio env audio mime s = (Inr [], s1))
   \<and> (candidateProfile analysisResult preferences = Inr profile \<and>
       generateContentWithRetry env (portfolio_params profile preferences) 3 2000 s
         = (Inl e, s1) \<longrightarrow>
         generatePortfolioHtml env analysisResult preferences s =
           (Inr ''<!-- Error generating portfolio -->'', s1))
   \<and> (generateContentWithRetry env (question_params role topic) 3 2000 s = (Inl e, s1) \<longrightarrow>
         generateInterviewQuestion env role topic s = (Inl e, s1))
   \<and> (generateContentWithRetry env (question_params role topic) 3 2000 s = (Inr response, s1) \<and>
       JSON_parse env (cleanJson (text_or (resp_text response) ''{}'')) = None \<longrightarrow>
         generateInterviewQuestion env role topic s = (Inl syntax_error, s1))
   \<and> (generateContentWithRetry env (evaluation_params question transcript) 3 2000 s
         = (Inl e, s1) \<longrightarrow>
         evaluateInterviewAnswer env question transcript s = (Inl e, s1))
   \<and> (generateContentWithRetry env (evaluation_params question transcript) 3 2000 s
         = (Inr response, s1) \<and>
       JSON_parse env (cleanJson (text_or (resp_text response) ''{}'')) = None \<longrightarrow>
         evaluateInterviewAnswer env question transcript s = (Inl syntax_error, s1))"
proof (intro conjI impI)
  assume "resume = None \<or> (\<exists>f part. resume = Some f \<and> fileToGenerativePart f = Inr part)"
  then show "\<exists>v s'. analyzeResumeHighlights env resume s = (Inr v, s')"
    by (auto simp: analyzeResumeHighlights_def split: prod.splits sum.splits option.splits)
next
  show "\<exists>v s'. generateInterviewTopics env role s = (Inr v, s')"
    by (auto simp: generateInterviewTopics_def split: prod.splits sum.splits option.splits)
next
  show "\<exists>a s'. generateSpeech env t s = (Inr a, s')"
    by (auto simp: generateSpeech_def split: prod.splits sum.splits)
next
  show "\<exists>x s'. transcribeAudio env audio mime s = (Inr x, s')"
    by (auto simp: transcribeAudio_def split: prod.splits sum.splits)
next
  assume "candidateProfile analysisResult preferences = Inr profile"
  then show "\<exists>h s'. generatePortfolioHtml env analysisResult preferences s = (Inr h, s')"
    by (auto simp: generatePortfolioHtml_def split: prod.splits sum.splits)
next
  assume "fileToGenerativePart f = Inr part \<and>
       generateContentWithRetry env (resume_params part) 3 2000 s = (r, s1) \<and>
       ((\<exists>e. r = Inl e) \<or>
        (\<exists>response. r = Inr response \<and>
           (resp_text response = None \<or> resp_text response = Some [] \<or>
            (\<exists>x. resp_text response = Some x \<and> JSON_parse env (cleanJson x) = None))))"
  then show "analyzeResumeHighlights env (Some f) s = (Inr None, s1)"
    by (auto simp: analyzeResumeHighlights_def)
next
  assume "generateContentWithRetry env (topics_params role) 3 2000 s = (r, s1) \<and>
       ((\<exists>e. r = Inl e) \<or>
        (\<exists>response. r = Inr response \<and>
           JSON_parse env (cleanJson (text_or (resp_text response) ''{}'')) = None))"
  then show "generateInterviewTopics env role s = (Inr (JArr []), s1)"
    by (auto simp: generateInterviewTopics_def)
next
  assume "generateContentWithRetry env (topics_params role) 3 2000 s = (Inr response, s1) \<and>
       (resp_text response = None \<or> resp_text response = Some []) \<and>
       JSON_parse env ''{}'' = Some (JObj [])"
  then show "generateInterviewTopics env role s = (Inr (JArr []), s1)"
    by (auto simp: generateInterviewTopics_def text_or_def cleanJson_empty_object)
next
  assume "generateContentWithRetry env (speech_params t) 3 2000 s = (Inl e, s1)"
  then show "generateSpeech env t s = (Inr None, s1)"
    by (simp add: generateSpeech_def)
next
  assume "generateContentWithRetry env (speech_params t) 3 2000 s = (Inr response, s1) \<and>
       (audioData response = None \<or> audioData response = Some [])"
  then show "generateSpeech env t s = (Inr None, s1)"
    by (auto simp: generateSpeech_def)
next
  assume "generateContentWithRetry env (transcribe_params audio mime) 3 2000 s = (Inl e, s1)"
  then show "transcribeAudio env audio mime s = (Inr [], s1)"
    by (simp add: transcribeAudio_def)
next
  assume "generateContentWithRetry env (transcribe_params audio mime) 3 2000 s
         = (Inr response, s1) \<and>
       (resp_text response = None \<or> resp_text response = Some [])"
  then show "transcribeAudio env audio mime s = (Inr [], s1)"
    by (auto simp: transcribeAudio_def text_or_def)
next
  assume "candidateProfile analysisResult preferences = Inr profile \<and>
       generateContentWithRetry env (portfolio_params profile preferences) 3 2000 s
         = (Inl e, s1)"
  then show "generatePortfolioHtml env analysisResult preferences s =
           (Inr ''<!-- Error generating portfolio -->'', s1)"
    by (simp add: generatePortfolioHtml_def)
next
  assume "generateContentWithRetry env (question_params role topic) 3 2000 s = (Inl e, s1)"
  then show "generateInterviewQuestion env role topic s = (Inl e, s1)"
    by (simp add: generateInterviewQuestion_def)
next
  assume "generateContentWithRetry env (question_params role topic) 3 2000 s
            = (Inr response, s1) \<and>
       JSON_parse env (cleanJson (text_or (resp_text response) ''{}'')) = None"
  then show "generateInterviewQuestion env role topic s = (Inl syntax_error, s1)"
    by (simp add: generateInterviewQuestion_def)
next
  assume "generateContentWithRetry env (evaluation_params question transcript) 3 2000 s
         = (Inl e, s1)"
  then show "evaluateInterviewAnswer env question transcript s = (Inl e, s1)"
    by (simp add: evaluateInterviewAnswer_def)
next
  assume "generateContentWithRetry env (evaluation_params question transcript) 3 2000 s
         = (Inr response, s1) \<and>
       JSON_parse env (cleanJson (text_or (resp_text response) ''{}'')) = None"
  then show "evaluateInterviewAnswer env question transcript s = (Inl syntax_error, s1)"
    by (simp add: evaluateInterviewAnswer_def)
qed

lemma offline_call:
  "generateContentWithRetry offline_env p 3 2000 init_state =
     (Inl (Error ''fetch failed''), \<lparr>gen_calls = 1, fetches = 0, trace = [Generate p]\<rparr>)"
proof -
  have "1 \<le> (3::int) \<and> generateContent offline_env (gen_calls init_state) p
          = Inl (Error ''fetch failed'') \<and> \<not> isQuotaError (Error ''fetch failed'')"
    by (simp add: offline_env_def fetch_failed_is_not_quota)
  then have "retry_loop offline_env p 3 2000 0 init_state =
    (Inl (Error ''fetch failed''),
     init_state\<lparr>gen_calls := gen_calls init_state + 1, trace := trace init_state @ [Generate p]\<rparr>)"
    by (intro retry_loop_other_error) simp_all
  then show ?thesis
    by (simp add: generateContentWithRetry_def init_state_def)
qed

lemma prose_call:
  "generateContentWithRetry prose_env p 3 2000 init_state =
     (Inr \<lparr>resp_text = Some ''Sorry, I cannot help with that.'', audioData = None\<rparr>,
      \<lparr>gen_calls = 1, fetches = 0, trace = [Generate p]\<rparr>)"
proof -
  have "int 0 < 3 \<and>
      (\<forall>k<0. \<exists>e. generateContent prose_env (gen_calls init_state + k) p = Inl e \<and> isQuotaError e)
      \<and> generateContent prose_env (gen_calls init_state + 0) p =
          Inr \<lparr>resp_text = Some ''Sorry, I cannot help with that.'', audioData = None\<rparr>"
    by (simp add: prose_env_def offline_env_def)
  then have "retry_loop prose_env p 3 2000 0 init_state =
    (Inr \<lparr>resp_text = Some ''Sorry, I cannot help with that.'', audioData = None\<rparr>,
     init_state\<lparr>gen_calls := gen_calls init_state + 0 + 1,
                 trace := trace init_state @ backoff_trace p 2000 0 0\<rparr>)"
    by (intro retry_loop_quota_then_success) simp_all
  then show ?thesis
    by (simp add: generateContentWithRetry_def init_state_def backoff_trace_def)
qed

lemma prose_rejected:
  "JSON_parse prose_env (cleanJson ''Sorry, I cannot help with that.'') = None"
  "JSON_parse prose_env
     (cleanJson (text_or (Some ''Sorry, I cannot help with that.'') ''{}'')) = None"
  by code_simp+

lemma small_profile_built: "candidateProfile small_analysis (JObj []) = Inr small_profile"
  by code_simp

theorem best_effort_components_witness:
  "analyzeResumeHighlights offline_env (Some resume_pdf) init_state =
     (Inr None,
      \<lparr>gen_calls = 1, fetches = 0,
       trace = [Generate (resume_params (InlineData (Some ''JVBERi0='') ''application/pdf''))]\<rparr>)
   \<and> generateInterviewTopics offline_env ''Data Engineer'' init_state =
     (Inr (JArr []),
      \<lparr>gen_calls = 1, fetches = 0, trace = [Generate (topics_params ''Data Engineer'')]\<rparr>)
   \<and> generateSpeech offline_env ''What is a join?'' init_state =
     (Inr None,
      \<lparr>gen_calls = 1, fetches = 0, trace = [Generate (speech_params ''What is a join?'')]\<rparr>)
   \<and> transcribeAudio offline_env ''GkXfo58='' ''audio/webm'' init_state =
     (Inr [],
      \<lparr>gen_calls = 1, fetches = 0,
       trace = [Generate (transcribe_params ''GkXfo58='' ''audio/webm'')]\<rparr>)
   \<and> generatePortfolioHtml offline_env small_analysis (JObj []) init_state =
     (Inr ''<!-- Error generating portfolio -->'',
      \<lparr>gen_calls = 1, fetches = 0,
       trace = [Generate (portfolio_params small_profile (JObj []))]\<rparr>)
   \<and> generateInterviewQuestion offline_env ''Data Engineer'' ''SQL'' init_state =
     (Inl (Error ''fetch failed''),
      \<lparr>gen_calls = 1, fetches = 0,
       trace = [Generate (question_params ''Data Engineer'' ''SQL'')]\<rparr>)
   \<and> evaluateInterviewAnswer offline_env join_question ''It joins.'' init_state =
     (Inl (Error ''fetch failed''),
      \<lparr>gen_calls = 1, fetches = 0,
       trace = [Generate (evaluation_params join_question ''It joins.'')]\<rparr>)
   \<and> analyzeResumeHighlights prose_env (Some resume_pdf) init_state =
     (Inr None,
      \<lparr>gen_calls = 1, fetches = 0,
       trace = [Generate (resume_params (InlineData (Some ''JVBERi0='') ''application/pdf''))]\<rparr>)
   \<and> generateInterviewTopics prose_env ''Data Engineer'' init_state =
     (Inr (JArr []),
      \<lparr>gen_calls = 1, fetches = 0, trace = [Generate (topics_params ''Data Engineer'')]\<rparr>)
   \<and> generateInterviewQuestion prose_env ''Data Engineer'' ''SQL'' init_state =
     (Inl syntax_error,
      \<lparr>gen_calls = 1, fetches = 0,
       trace = [Generate (question_params ''Data Engineer'' ''SQL'')]\<rparr>)
   \<and> evaluateInterviewAnswer prose_env join_question ''It joins.'' init_state =
     (Inl syntax_error,
      \<lparr>gen_calls = 1, fetches = 0,
       trace = [Generate (evaluation_params join_question ''It joins.'')]\<rparr>)"
proof -
  have part: "fileToGenerativePart resume_pdf =
                Inr (InlineData (Some ''JVBERi0='') ''application/pdf'')"
    by code_simp
  note offline = best_effort_components
      [where env = offline_env and s = init_state and f = resume_pdf
         and part = "InlineData (Some ''JVBERi0='') ''application/pdf''"
         and e = "Error ''fetch failed''" and analysisResult = small_analysis
         and preferences = "JObj []" and profile = small_profile
         and role = "''Data Engineer''" and topic = "''SQL''"
         and t = "''What is a join?''" and audio = "''GkXfo58=''"
         and mime = "''audio/webm''" and question = join_question
         and transcript = "''It joins.''"
         and r = "Inl (Error ''fetch failed'')"
         and ?s1.0 = "\<lparr>gen_calls = 1, fetches = 0,
             trace = [Generate (resume_params
                        (InlineData (Some ''JVBERi0='') ''application/pdf''))]\<rparr>"]
  note prose = best_effort_components
      [where env = prose_env and s = init_state and f = resume_pdf
         and part = "InlineData (Some ''JVBERi0='') ''application/pdf''"
         and role = "''Data Engineer''" and topic = "''SQL''"
         and question = join_question and transcript = "''It joins.''"
         and response = "\<lparr>resp_text = Some ''Sorry, I cannot help with that.'',
                            audioData = None\<rparr>"
         and r = "Inr \<lparr>resp_text = Some ''Sorry, I cannot help with that.'',
                         audioData = None\<rparr>"]
  have A: "analyzeResumeHighlights offline_env (Some resume_pdf) init_state =
     (Inr None,
      \<lparr>gen_calls = 1, fetches = 0,
       trace = [Generate (resume_params (InlineData (Some ''JVBERi0='') ''application/pdf''))]\<rparr>)"
    using offline part by (simp add: offline_call)
  have B: "generateInterviewTopics offline_env ''Data Engineer'' init_state =
     (Inr (JArr []),
      \<lparr>gen_calls = 1, fetches = 0, trace = [Generate (topics_params ''Data Engineer'')]\<rparr>)"
    using best_effort_components
      [where env = offline_env and s = init_state and role = "''Data Engineer''"
         and r = "Inl (Error ''fetch failed'')"
         and ?s1.0 = "\<lparr>gen_calls = 1, fetches = 0,
                        trace = [Generate (topics_params ''Data Engineer'')]\<rparr>"]
    by (simp add: offline_call)
  have C: "generateSpeech offline_env ''What is a join?'' init_state =
     (Inr None,
      \<lparr>gen_calls = 1, fetches = 0, trace = [Generate (speech_params ''What is a join?'')]\<rparr>)
   \<and> transcribeAudio offline_env ''GkXfo58='' ''audio/webm'' init_state =
     (Inr [],
      \<lparr>gen_calls = 1, fetches = 0,
       trace = [Generate (transcribe_params ''GkXfo58='' ''audio/webm'')]\<rparr>)
   \<and> generatePortfolioHtml offline_env small_analysis (JObj []) init_state =
     (Inr ''<!-- Error generating portfolio -->'',
      \<lparr>gen_calls = 1, fetches = 0,
       trace = [Generate (portfolio_params small_profile (JObj []))]\<rparr>)
   \<and> generateInterviewQuestion offline_env ''Data Engineer'' ''SQL'' init_state =
     (Inl (Error ''fetch failed''),
      \<lparr>gen_calls = 1, fetches = 0,
       trace = [Generate (question_params ''Data Engineer'' ''SQL'')]\<rparr>)
   \<and> evaluateInterviewAnswer offline_env join_question ''It joins.'' init_state =
     (Inl (Error ''fetch failed''),
      \<lparr>gen_calls = 1, fetches = 0,
       trace = [Generate (evaluation_params join_question ''It joins.'')]\<rparr>)"
    by (simp add: generateSpeech_def transcribeAudio_def generatePortfolioHtml_def
          generateInterviewQuestion_def evaluateInterviewAnswer_def offline_call
          small_profile_built)
  have D: "analyzeResumeHighlights prose_env (Some resume_pdf) init_state =
     (Inr None,
      \<lparr>gen_calls = 1, fetches = 0,
       trace = [Generate (resume_params (InlineData (Some ''JVBERi0='') ''application/pdf''))]\<rparr>)"
    using prose [where ?s1.0 = "\<lparr>gen_calls = 1, fetches = 0,
             trace = [Generate (resume_params
                        (InlineData (Some ''JVBERi0='') ''application/pdf''))]\<rparr>"]
      part by (simp add: prose_call prose_rejected)
  have E: "generateInterviewTopics prose_env ''Data Engineer'' init_state =
     (Inr (JArr []),
      \<lparr>gen_calls = 1, fetches = 0, trace = [Generate (topics_params ''Data Engineer'')]\<rparr>)"
    using prose [where ?s1.0 = "\<lparr>gen_calls = 1, fetches = 0,
                        trace = [Generate (topics_params ''Data Engineer'')]\<rparr>"]
    by (simp add: prose_call prose_rejected)
  have F: "generateInterviewQuestion prose_env ''Data Engineer'' ''SQL'' init_state =
     (Inl syntax_error,
      \<lparr>gen_calls = 1, fetches = 0,
       trace = [Generate (question_params ''Data Engineer'' ''SQL'')]\<rparr>)"
    using prose [where ?s1.0 = "\<lparr>gen_calls = 1, fetches = 0,
                        trace = [Generate (question_params ''Data Engineer'' ''SQL'')]\<rparr>"]
    by (simp add: prose_call prose_rejected)
  have G: "evaluateInterviewAnswer prose_env join_question ''It joins.'' init_state =
     (Inl syntax_error,
      \<lparr>gen_calls = 1, fetches = 0,
       trace = [Generate (evaluation_params join_question ''It joins.'')]\<rparr>)"
    using prose [where ?s1.0 = "\<lparr>gen_calls = 1, fetches = 0,
                        trace = [Generate (evaluation_params join_question ''It joins.'')]\<rparr>"]
    by (simp add: prose_call prose_rejected)
  from A B C D E F G show ?thesis by blast
qed

text \<open>
  C9, as the claim has it, fails. With the model unreachable, question generation and
  answer evaluation throw the error of the call to their caller. And the portfolio
  generator throws a \<^verbatim>\<open>TypeError\<close>, before any model call, on the empty object and on
  an analysis result without \<^verbatim>\<open>github_projects\<close>: the profile is built outside its
  \<^verbatim>\<open>try\<close> block.
\<close>

theorem interview_turn_throws_counterexample:
  "generateInterviewQuestion offline_env ''Data Engineer'' ''SQL'' init_state =
     (Inl (Error ''fetch failed''),
      \<lparr>gen_calls = 1, fetches = 0,
       trace = [Generate (question_params ''Data Engineer'' ''SQL'')]\<rparr>)
   \<and> evaluateInterviewAnswer offline_env join_question ''It joins.'' init_state =
     (Inl (Error ''fetch failed''),
      \<lparr>gen_calls = 1, fetches = 0,
       trace = [Generate (evaluation_params join_question ''It joins.'')]\<rparr>)
   \<and> generatePortfolioHtml offline_env (JObj []) (JObj []) init_state =
     (Inl type_error, init_state)
   \<and> generatePortfolioHtml offline_env analysis_without_projects (JObj []) init_state =
     (Inl type_error, init_state)"
proof -
  have "candidateProfile (JObj []) (JObj []) = Inl type_error"
    by code_simp
  moreover have "candidateProfile analysis_without_projects (JObj []) = Inl type_error"
    by code_simp
  ultimately show ?thesis
    by (simp add: generateInterviewQuestion_def evaluateInterviewAnswer_def
          generatePortfolioHtml_def offline_call)
qed

end
